theory Spec2Isabelle
  imports Complex_Main
begin

text \<open>
  A shallow embedding of the fractal particle kernel and of the gesture control loop.
  The repository holds three revisions of the component \<open>FractalVis\<close>; each definition
  names the one it is translated from:
  \<^item> \<open>src/unnamed/part_000\<close>: the particle vertex shader (\<open>vertexShader\<close>);
  \<^item> \<open>src/unnamed/part_001\<close>: the revision with the gesture state machine; its
    definitions carry the source's names without a suffix;
  \<^item> \<open>src/components/FractalVis.tsx\<close>: definitions with the suffix \<open>_cmp\<close>;
  \<^item> \<open>src/unnamed/part_002\<close>: the revision that drives \<open>vertexShader\<close>; definitions with
    the suffix \<open>_pf\<close>;
  \<^item> \<open>src/App.tsx\<close>: the two revisions of the function that starts a preset.
\<close>

section \<open>Numbers and vectors\<close>

text \<open>
  The shader's \<open>float\<close> and JavaScript's \<open>number\<close> are modelled as \<open>real\<close>: rounding and
  overflow are not represented. An operation whose result GLSL leaves undefined (the
  logarithm of a non-positive number, a division by zero) returns \<open>None\<close>; under IEEE
  arithmetic these are the places where an infinity or a NaN is produced.
\<close>

type_synonym vec2 = "real \<times> real"
type_synonym vec3 = "real \<times> real \<times> real"

abbreviation vec_x :: "vec3 \<Rightarrow> real" where "vec_x v \<equiv> fst v"
abbreviation vec_y :: "vec3 \<Rightarrow> real" where "vec_y v \<equiv> fst (snd v)"
abbreviation vec_z :: "vec3 \<Rightarrow> real" where "vec_z v \<equiv> snd (snd v)"

text \<open>GLSL \<open>dot\<close> on \<open>vec2\<close> and \<open>mix\<close> on \<open>vec3\<close> with a scalar weight.\<close>

definition dot2 :: "vec2 \<Rightarrow> vec2 \<Rightarrow> real" where
  "dot2 a b = fst a * fst b + snd a * snd b"

definition mix3 :: "vec3 \<Rightarrow> vec3 \<Rightarrow> real \<Rightarrow> vec3" where
  "mix3 a b t =
     (vec_x a * (1 - t) + vec_x b * t, vec_y a * (1 - t) + vec_y b * t, vec_z a * (1 - t) + vec_z b * t)"

text \<open>GLSL \<open>log2(x)\<close>: the result is undefined for \<open>x \<le> 0\<close>.\<close>

definition glsl_log2 :: "real \<Rightarrow> real option" where
  "glsl_log2 x = (if 0 < x then Some (log 2 x) else None)"

text \<open>
  GLSL \<open>pow(x, y)\<close>, defined for \<open>x > 0\<close> and for \<open>x = 0\<close> with \<open>y > 0\<close>; the palette
  only calls it with a base in \<open>[0, 1]\<close> and a positive constant exponent, where it is
  \<open>x powr y\<close>.
\<close>

definition glsl_pow :: "real \<Rightarrow> real \<Rightarrow> real" where
  "glsl_pow x y = x powr y"

text \<open>JavaScript's \<open>a % b\<close> on numbers: the remainder of the division truncated towards zero.\<close>

definition js_rem :: "real \<Rightarrow> real \<Rightarrow> real" where
  "js_rem a b = a - b * real_of_int (if 0 \<le> a / b then \<lfloor>a / b\<rfloor> else \<lceil>a / b\<rceil>)"

text \<open>\<open>THREE.MathUtils.lerp(x, y, t)\<close> of the three.js library: \<open>(1 - t) * x + t * y\<close>.\<close>

definition lerp :: "real \<Rightarrow> real \<Rightarrow> real \<Rightarrow> real" where
  "lerp x y t = (1 - t) * x + t * y"

text \<open>
  \<open>const damp = (current, target, lambda, dt) =>
     THREE.MathUtils.lerp(current, target, 1 - Math.exp(-lambda * dt))\<close>
\<close>

definition damp :: "real \<Rightarrow> real \<Rightarrow> real \<Rightarrow> real \<Rightarrow> real" where
  "damp current target lambda dt = lerp current target (1 - exp (- lambda * dt))"

text \<open>Applying \<open>damp\<close> once per frame, for the frame times \<open>dts\<close> in order.\<close>

fun damp_steps :: "real \<Rightarrow> real \<Rightarrow> real \<Rightarrow> real list \<Rightarrow> real" where
  "damp_steps x target lambda [] = x"
| "damp_steps x target lambda (dt # dts) = damp_steps (damp x target lambda dt) target lambda dts"


section \<open>The particle vertex shader (src/unnamed/part_000)\<close>

text \<open>\<open>vec2 csqr(vec2 a) { return vec2(a.x*a.x - a.y*a.y, 2.0*a.x*a.y); }\<close>\<close>

definition csqr :: "vec2 \<Rightarrow> vec2" where
  "csqr a = (fst a * fst a - snd a * snd a, 2.0 * fst a * snd a)"

text \<open>
  The update of \<open>z\<close> in the loop body of \<open>IterateFractal\<close>: the plain square below mode 2.5,
  the conjugate's square within 0.1 of mode 3, the square of the absolute values otherwise.
\<close>

definition fstep :: "real \<Rightarrow> vec2 \<Rightarrow> vec2 \<Rightarrow> vec2" where
  "fstep mode z c =
     (if mode < 2.5 then (fst (csqr z) + fst c, snd (csqr z) + snd c)
      else if \<bar>mode - 3.0\<bar> < 0.1 then
        (let zConj = (fst z, - snd z) in (fst (csqr zConj) + fst c, snd (csqr zConj) + snd c))
      else
        (let zAbs = (\<bar>fst z\<bar>, \<bar>snd z\<bar>) in (fst (csqr zAbs) + fst c, snd (csqr zAbs) + snd c)))"

text \<open>
  The loop \<open>for (float i = 0.0; i < 100.0; i++)\<close> of \<open>IterateFractal\<close>. The counter
  \<open>iter\<close> is incremented exactly when \<open>i\<close> is, so the two are one argument; the result is
  the final \<open>z\<close> and \<open>iter\<close>.
\<close>

function iterLoop :: "real \<Rightarrow> real \<Rightarrow> vec2 \<Rightarrow> nat \<Rightarrow> vec2 \<Rightarrow> vec2 \<times> nat" where
  "iterLoop mode loopLimit c i z =
     (if i < 100 then
        (if loopLimit \<le> real i then (z, i)
         else if 4.0 < dot2 (fstep mode z c) (fstep mode z c) then (fstep mode z c, i)
         else iterLoop mode loopLimit c (Suc i) (fstep mode z c))
      else (z, i))"
  by pat_completeness auto
termination
  by (relation "measure (\<lambda>(mode, loopLimit, c, i, z). 100 - i)") auto

declare iterLoop.simps [simp del]

text \<open>
  \<open>vec3 IterateFractal(vec2 pos, float mode)\<close>, with the uniforms \<open>uJuliaC\<close> and \<open>uMaxIter\<close>
  it reads as arguments. \<open>None\<close>: the smoothed count takes \<open>log2\<close> of a non-positive number.
\<close>

definition IterateFractal :: "vec2 \<Rightarrow> real \<Rightarrow> vec2 \<Rightarrow> real \<Rightarrow> vec3 option" where
  "IterateFractal uJuliaC uMaxIter pos mode =
     (let uv = pos;
          isJulia = (\<bar>mode - 1.0\<bar> < 0.1);
          z0 = (if isJulia then uv else (0.0, 0.0));
          c = (if isJulia then uJuliaC else uv);
          loopLimit = (if 0.0 < uMaxIter then uMaxIter else 20.0);
          r = iterLoop mode loopLimit c 0 z0;
          z = fst r;
          iter = real (snd r)
      in case glsl_log2 (dot2 z z) of
           None \<Rightarrow> None
         | Some l \<Rightarrow>
             (case glsl_log2 l of
                None \<Rightarrow> None
              | Some ll \<Rightarrow> Some (fst z, snd z, (iter - ll + 4.0) / loopLimit)))"

text \<open>
  \<open>vec3 getPalette(float t, float mode)\<close>, with the uniforms \<open>uTime\<close> and \<open>uVisualMode\<close> it
  reads as arguments.
\<close>

definition getPalette :: "real \<Rightarrow> real \<Rightarrow> real \<Rightarrow> real \<Rightarrow> vec3" where
  "getPalette uTime uVisualMode t mode =
     (let pulse = (if 0.5 < uVisualMode then 0.5 + 0.5 * sin (t * 3.0)
                   else 0.5 + 0.5 * sin (t * 3.0 + uTime * 0.1))
      in if mode < 0.5 then
           mix3 (mix3 (0.02, 0.01, 0.10) (0.15, 0.05, 0.25) pulse) (0.30, 0.20, 0.50)
             (glsl_pow pulse 4.0 * 0.4)
         else if mode < 1.5 then
           mix3 (mix3 (0.1, 0.0, 0.0) (0.6, 0.1, 0.0) pulse) (1.0, 0.7, 0.1)
             (glsl_pow pulse 3.0)
         else if mode < 2.5 then
           mix3 (mix3 (0.0, 0.1, 0.2) (0.0, 0.4, 0.6) pulse) (0.6, 0.9, 1.0)
             (glsl_pow pulse 5.0 * 0.5)
         else if mode < 3.5 then
           mix3 (mix3 (0.0, 0.1, 0.0) (0.1, 0.4, 0.1) pulse) (0.4, 1.0, 0.4)
             (glsl_pow pulse 8.0 * 0.8)
         else
           mix3 (mix3 (0.15, 0.0, 0.3) (0.0, 0.2, 0.5) pulse) (1.0, 0.0, 0.8)
             (glsl_pow pulse 2.0 * 0.5))"

text \<open>
  The block \<open>2D Calculation\<close> of \<open>main()\<close>: the pair \<open>(fractalResult, pos2D)\<close>. \<open>None\<close>:
  the division by \<open>uZoom\<close> or the smoothed count is undefined.
\<close>

definition calc2D :: "real \<Rightarrow> vec2 \<Rightarrow> vec2 \<Rightarrow> real \<Rightarrow> vec3 \<Rightarrow> real \<Rightarrow> (vec3 \<times> vec3) option" where
  "calc2D uZoom uPan uJuliaC uMaxIter originalPos mode =
     (if 0.5 \<le> mode \<and> mode \<le> 4.5 then
        (let flatPos = (vec_x originalPos * 2.0, vec_y originalPos * 2.0)
         in if uZoom = 0 then None
            else
              (let navPos = (fst flatPos / uZoom + fst uPan, snd flatPos / uZoom + snd uPan)
               in case IterateFractal uJuliaC uMaxIter navPos mode of
                    None \<Rightarrow> None
                  | Some fractalResult \<Rightarrow>
                      (let zDepth = (if vec_z fractalResult < 0.05 then - 20.0
                                     else vec_z fractalResult * 0.5)
                       in Some (fractalResult,
                                (vec_x originalPos * 4.0, vec_y originalPos * 3.0, zDepth * 3.0)))))
      else Some ((0.0, 0.0, 0.0), (0.0, 0.0, 0.0)))"

text \<open>
  \<open>main()\<close> for \<open>uVisualMode > 0.5\<close>, where the interaction block is skipped: the position
  \<open>targetPos\<close> chosen by the switcher, the colour \<open>vColor\<close> and \<open>vAlpha\<close>. The result
  \<open>pos3D\<close> of the block \<open>3D Calculation\<close> is an argument; \<open>aRandomX\<close> is \<open>aRandom.x\<close>. The
  projection of \<open>targetPos\<close> by the camera matrices is left out.
\<close>

definition main_visual ::
  "real \<Rightarrow> real \<Rightarrow> real \<Rightarrow> real \<Rightarrow> vec2 \<Rightarrow> vec2 \<Rightarrow> real \<Rightarrow> real \<Rightarrow> vec3 \<Rightarrow> real \<Rightarrow> vec3
     \<Rightarrow> (vec3 \<times> vec3 \<times> real) option" where
  "main_visual uTime uVisualMode uMode uZoom uPan uJuliaC uMaxIter uColorMode pos3D aRandomX originalPos =
     (let mode = uMode
      in case calc2D uZoom uPan uJuliaC uMaxIter originalPos mode of
           None \<Rightarrow> None
         | Some r \<Rightarrow>
             (let fractalResult = fst r;
                  pos2D = snd r;
                  targetPos = (if mode < 0.5 \<or> 4.5 < mode then pos3D else pos2D);
                  t = (if mode < 0.5 \<or> 4.5 < mode
                       then sqrt ((vec_x targetPos)\<^sup>2 + (vec_y targetPos)\<^sup>2 + (vec_z targetPos)\<^sup>2) * 0.2
                            + uTime * 0.1
                       else vec_z fractalResult + uTime * 0.05 + aRandomX * 0.2);
                  color = getPalette uTime uVisualMode t uColorMode;
                  vAlpha = (if vec_z fractalResult < 0.05 \<and> 0.5 \<le> mode \<and> mode \<le> 4.5 then 0.0 else 0.8)
              in Some (targetPos, color, vAlpha)))"


section \<open>The escape-time orbit\<close>

text \<open>
  The iterates of the recurrence that \<open>IterateFractal\<close> runs: \<open>orbit md c z0 n\<close> is \<open>z\<close>
  after \<open>n\<close> applications of the loop body's update, from the start value \<open>z0\<close>.
\<close>

fun orbit :: "real \<Rightarrow> vec2 \<Rightarrow> vec2 \<Rightarrow> nat \<Rightarrow> vec2" where
  "orbit md c z0 0 = z0"
| "orbit md c z0 (Suc n) = fstep md (orbit md c z0 n) c"

text \<open>The start value and the constant that \<open>IterateFractal\<close> picks: Julia within 0.1 of mode 1.\<close>

definition startZ :: "vec2 \<Rightarrow> real \<Rightarrow> vec2" where
  "startZ pos md = (if \<bar>md - 1.0\<bar> < 0.1 then pos else (0.0, 0.0))"

definition paramC :: "vec2 \<Rightarrow> vec2 \<Rightarrow> real \<Rightarrow> vec2" where
  "paramC uJuliaC pos md = (if \<bar>md - 1.0\<bar> < 0.1 then uJuliaC else pos)"


section \<open>Gesture classification (src/unnamed/part_001)\<close>

text \<open>
  A landmark is the triple \<open>(x, y, z)\<close>; a hand is the array of the tracker's 21
  landmarks, read by index; the callback receives the list \<open>multiHandLandmarks\<close> of the
  hands it detected.
\<close>

type_synonym landmark = vec3
type_synonym hand = "nat \<Rightarrow> landmark"

text \<open>\<open>const dist = (p1, p2) => Math.sqrt(Math.pow(p1.x - p2.x, 2) + Math.pow(p1.y - p2.y, 2))\<close>\<close>

definition dist_xy :: "landmark \<Rightarrow> landmark \<Rightarrow> real" where
  "dist_xy p1 p2 = sqrt ((vec_x p1 - vec_x p2)\<^sup>2 + (vec_y p1 - vec_y p2)\<^sup>2)"

text \<open>The object \<open>gesturesRef.current\<close>.\<close>

record HandGestures =
  indexTip :: vec3
  wristPos :: vec3
  isPinching :: bool
  isPalmOpen :: bool
  isFist :: bool
  isPointing :: bool
  isVictory :: bool
  isSnapping :: bool
  isWaving :: bool
  isClapping :: bool
  isPunching :: bool
  isTwoHandSmash :: bool
  handsDistance :: real
  handsCount :: nat
  gestureName :: string

text \<open>The object \<open>physicsRef.current\<close>.\<close>

record Physics =
  prevWristZ :: real
  punchVelocity :: real
  clapCooldown :: real
  snapCooldown :: real
  lastHandPos :: vec3
  wasFist :: bool
  wasPunching :: bool
  wasVictory :: bool
  wasSmash :: bool

definition mapX :: "real \<Rightarrow> real" where
  "mapX x = (x - 0.5) * 4.0"

definition mapY :: "real \<Rightarrow> real" where
  "mapY y = (y - 0.5) * - 4.0"

text \<open>\<open>[8,12,16,20].forEach(i => tipSum += dist(h[i], h[0]))\<close>, divided by 4.\<close>

definition avgTipDist :: "hand \<Rightarrow> real" where
  "avgTipDist h = (0 + dist_xy (h 8) (h 0) + dist_xy (h 12) (h 0) + dist_xy (h 16) (h 0) + dist_xy (h 20) (h 0)) / 4"

text \<open>The chain that sets \<open>g.gestureName\<close> for the display.\<close>

definition gestureLabel :: "HandGestures \<Rightarrow> string" where
  "gestureLabel g =
     (if isClapping g then ''CLAP (MODE SWITCH)''
      else if isTwoHandSmash g then ''SMASH (RESET)''
      else if isSnapping g then ''SNAP (COLOR)''
      else if isVictory g then ''VICTORY (FREEZE)''
      else if isPunching g then ''PUNCH (ZOOM)''
      else if isFist g then ''FIST (GRAB)''
      else if isPinching g then ''PINCH (DRAG)''
      else if isPalmOpen g then ''PALM (HOVER)''
      else ''TRACKING...'')"

text \<open>
  The callback \<open>hands.onResults\<close>: it updates \<open>gesturesRef.current\<close> and
  \<open>physicsRef.current\<close> in place; the model returns the pair.
\<close>

definition onResults :: "hand list \<Rightarrow> HandGestures \<times> Physics \<Rightarrow> HandGestures \<times> Physics" where
  "onResults landmarks s =
     (let g0 = (fst s)\<lparr>handsCount := length landmarks\<rparr>;
          ph = snd s
      in if 0 < handsCount g0 then
           (let h1 = landmarks ! 0;
                pinchDist = dist_xy (h1 4) (h1 8);
                avg = avgTipDist h1;
                fist = (avg < 0.25);
                pinching = (pinchDist < 0.05);
                ringDist = dist_xy (h1 16) (h1 0);
                pinkyDist = dist_xy (h1 20) (h1 0);
                indexDist = dist_xy (h1 8) (h1 0);
                middleDist = dist_xy (h1 12) (h1 0);
                currentZ = vec_z (h1 0);
                deltaZ = currentZ - prevWristZ ph;
                ph1 = ph\<lparr>punchVelocity := \<bar>deltaZ\<bar>\<rparr>;
                punching = (0.1 < punchVelocity ph1 \<and> fist);
                ph2 = ph1\<lparr>prevWristZ := currentZ\<rparr>;
                g1 = g0\<lparr>indexTip := (mapX (vec_x (h1 8)), mapY (vec_y (h1 8)), vec_z (h1 8)),
                        wristPos := (mapX (vec_x (h1 0)), mapY (vec_y (h1 0)), vec_z (h1 0)),
                        isPinching := pinching,
                        isFist := fist,
                        isPalmOpen := (\<not> fist \<and> \<not> pinching \<and> 0.4 < avg),
                        isVictory := (0.4 < indexDist \<and> 0.4 < middleDist \<and> ringDist < 0.3 \<and> pinkyDist < 0.3),
                        isPunching := punching,
                        isClapping := False,
                        isTwoHandSmash := False\<rparr>;
                g2 = (if handsCount g1 = 2 then
                        (let h2 = landmarks ! 1;
                             handDist = dist_xy (h1 0) (h2 0);
                             isH2Fist = (avgTipDist h2 < 0.25)
                         in g1\<lparr>handsDistance := handDist,
                               isClapping := (if handDist < 0.1 then True else isClapping g1),
                               isTwoHandSmash :=
                                 (if isFist g1 \<and> isH2Fist \<and> handDist < 0.15 then True
                                  else isTwoHandSmash g1)\<rparr>)
                      else g1);
                middleThumbDist = dist_xy (h1 12) (h1 4);
                g3 = g2\<lparr>isSnapping := (middleThumbDist < 0.04 \<and> 0.4 < dist_xy (h1 8) (h1 0))\<rparr>
            in (g3\<lparr>gestureName := gestureLabel g3\<rparr>, ph2))
         else (g0\<lparr>gestureName := ''NO HANDS''\<rparr>, ph))"

section \<open>Gesture classification (src/components/FractalVis.tsx)\<close>

text \<open>
  The callback \<open>hands.onResults\<close> of this revision writes \<open>gesturesRef.current\<close> only and
  returns early when no hand is reported.
\<close>

definition onResults_cmp :: "hand list \<Rightarrow> HandGestures \<Rightarrow> HandGestures" where
  "onResults_cmp lm g =
     (let g0 = g\<lparr>handsCount := length lm\<rparr>
      in if length lm = 0 then g0\<lparr>gestureName := ''NO HANDS''\<rparr>
         else
           (let h1 = lm ! 0;
                pinch = dist_xy (h1 4) (h1 8);
                avg = avgTipDist h1;
                middle = dist_xy (h1 12) (h1 0);
                snapDist = dist_xy (h1 12) (h1 4);
                g1 = g0\<lparr>indexTip := (mapX (vec_x (h1 8)), mapY (vec_y (h1 8)), vec_z (h1 8)),
                        isPinching := (pinch < 0.05),
                        isFist := (avg < 0.25),
                        isPalmOpen := (\<not> avg < 0.25 \<and> \<not> pinch < 0.05 \<and> 0.4 < avg),
                        isVictory := (0.4 < middle \<and> avg < 0.3),
                        isSnapping := (snapDist < 0.04)\<rparr>
            in g1\<lparr>gestureName :=
                    (if isSnapping g1 then ''SNAP''
                     else if isFist g1 then ''FIST''
                     else if isPalmOpen g1 then ''PALM''
                     else if isPinching g1 then ''PINCH''
                     else ''TRACKING...'')\<rparr>))"


section \<open>The render loop (src/unnamed/part_001)\<close>

text \<open>
  The enum \<open>InteractionMode\<close> is imported from \<open>../types\<close>, whose revision for this
  component is not among the sources; these are the two members the component uses (the
  "object/orbit" and "immersive/fly" sub-modes).
\<close>

datatype InteractionMode = OBJECT_ORBIT | IMMERSIVE_FLY

text \<open>The enum \<open>FractalMode\<close> and the type \<open>AnimationPreset\<close> of \<open>types.ts\<close> (in part_002).\<close>

datatype FractalMode =
  MANDELBULB_3D | JULIA_2D | MANDELBROT | TRICORN | BURNING_SHIP | MENGER_SPONGE | SIERPINSKI

datatype AnimationPreset =
  NONE | MANDELBROT_DIVE | JULIA_MORPH | UNIVERSE_TOUR | GEOMETRIC_PATTERNS | COLOR_SYMPHONY
  | INFINITY_ZOOM

text \<open>The fields of \<open>navRef.current\<close> that the wheel handler and the render loop use.\<close>

record Nav =
  zoom :: real
  pan :: vec2

text \<open>
  The uniforms of a shader material that the render loop writes. The loop works on the
  particle material's uniforms in interactive mode and on the quad material's otherwise.
  The quad material has no hand or force uniform and the particle material no
  \<open>uMaxIter\<close>; the loop touches these only in the mode whose material has them.
\<close>

record Uniforms =
  uTime :: real
  uMode :: real
  uJuliaC :: vec2
  uPower :: real
  uMaxIter :: real
  uZoom :: real
  uPan :: vec2
  uColorMode :: real
  uHandPos :: vec3
  uAttractStrength :: real
  uRepelStrength :: real

text \<open>The object \<open>propsRef.current\<close>.\<close>

record Props =
  mode :: FractalMode
  attractionSensitivity :: real
  pinchSensitivity :: real
  morphSpeed :: real
  iterations :: real
  power_prop :: real
  interactiveMode :: bool
  activeAnimation :: AnimationPreset
  colorMode :: real

text \<open>
  Everything the function \<open>animate\<close> reads and writes across frames: the refs, the two
  materials' uniforms, and the variables \<open>currentModeVal\<close>, \<open>evolutionTime\<close>,
  \<open>targetMode\<close>, \<open>animPhase\<close> of its closure. \<open>interactionMode\<close> is
  \<open>interactionModeRef.current\<close>: \<open>setInteractionMode\<close> reaches it through the effect that
  follows the re-render, taken to run before the next frame.
\<close>

record AnimState =
  nav :: Nav
  phys :: Physics
  quadU :: Uniforms
  partU :: Uniforms
  interactionMode :: InteractionMode
  currentModeVal :: real
  evolutionTime :: real
  targetMode :: real
  animPhase :: real

text \<open>
  The wheel handler: \<open>deltaY\<close> is the event's \<open>deltaY\<close>. Its comment reads
  "Safety clamp to prevent infinity or zero".
\<close>

definition handleWheel :: "real \<Rightarrow> Nav \<Rightarrow> Nav" where
  "handleWheel deltaY n =
     (let zoomSpeed = 0.15;
          delta = - sgn deltaY * zoomSpeed;
          newZoom = zoom n * (1 + delta)
      in if 0.0001 < newZoom \<and> newZoom < 100000 then n\<lparr>zoom := newZoom\<rparr> else n)"

text \<open>
  The pattern of the one-shot actions:
  \<open>if (trigger && cooldown <= 0) { ...; cooldown = duration; } if (cooldown > 0) cooldown -= dt;\<close>
  The result says whether the action fired and gives the new value of the timer.
\<close>

definition cooldownGate :: "real \<Rightarrow> bool \<Rightarrow> real \<Rightarrow> real \<Rightarrow> bool \<times> real" where
  "cooldownGate duration trigger dt cd =
     (let fired = (trigger \<and> cd \<le> 0);
          cd1 = (if fired then duration else cd);
          cd2 = (if 0 < cd1 then cd1 - dt else cd1)
      in (fired, cd2))"

text \<open>The clap's gate: one second in part_001, 0.8 seconds in components/FractalVis.tsx.\<close>

definition clapGate :: "bool \<Rightarrow> real \<Rightarrow> real \<Rightarrow> bool \<times> real" where
  "clapGate clapping dt cd = cooldownGate 1.0 clapping dt cd"

definition clapGate_cmp :: "bool \<Rightarrow> real \<Rightarrow> real \<Rightarrow> bool \<times> real" where
  "clapGate_cmp clapping dt cd = cooldownGate 0.8 clapping dt cd"

text \<open>
  \<open>n\<close> frames of a gate with the trigger held, each of duration \<open>dt\<close>: the number of frames
  in which the action fired, and the timer at the end.
\<close>

fun heldFrames :: "(bool \<Rightarrow> real \<Rightarrow> real \<Rightarrow> bool \<times> real) \<Rightarrow> real \<Rightarrow> nat \<Rightarrow> real \<Rightarrow> nat \<times> real" where
  "heldFrames gate dt 0 cd = (0, cd)"
| "heldFrames gate dt (Suc n) cd =
     (let r = gate True dt cd;
          rest = heldFrames gate dt n (snd r)
      in ((if fst r then 1 else 0) + fst rest, snd rest))"

definition updU :: "Props \<Rightarrow> (Uniforms \<Rightarrow> Uniforms) \<Rightarrow> AnimState \<Rightarrow> AnimState" where
  "updU p f st = (if interactiveMode p then st\<lparr>partU := f (partU st)\<rparr> else st\<lparr>quadU := f (quadU st)\<rparr>)"

text \<open>\<open>Vector2.lerp(v, alpha)\<close> of three.js: each component moves by \<open>alpha\<close> of the way.\<close>

definition vec2_lerp :: "vec2 \<Rightarrow> vec2 \<Rightarrow> real \<Rightarrow> vec2" where
  "vec2_lerp a v alpha = (fst a + (fst v - fst a) * alpha, snd a + (snd v - snd a) * alpha)"

text \<open>The block \<open>NAVIGATION LOGIC\<close>; \<open>md\<close> is the interaction mode read at the start of the frame.\<close>

definition navigationLogic :: "InteractionMode \<Rightarrow> HandGestures \<Rightarrow> real \<Rightarrow> Physics \<Rightarrow> Nav \<Rightarrow> Nav" where
  "navigationLogic md g dt ph n =
     (if md = OBJECT_ORBIT then
        (if isFist g then
           (let deltaX = (vec_x (indexTip g) - vec_x (lastHandPos ph)) * 2.5;
                deltaY = (vec_y (indexTip g) - vec_y (lastHandPos ph)) * 2.5
            in n\<lparr>pan := (fst (pan n) + deltaX, snd (pan n) - deltaY)\<rparr>)
         else if isPinching g then
           (let zoomFactor = 1.0 + (vec_y (indexTip g) - vec_y (lastHandPos ph)) * 1.5
            in n\<lparr>zoom := zoom n * zoomFactor\<rparr>)
         else n)
      else if md = IMMERSIVE_FLY then
        (if isFist g then n\<lparr>zoom := zoom n * (1 + dt * 0.8)\<rparr>
         else if isPalmOpen g then
           (let steerX = vec_x (indexTip g) * 0.8;
                steerY = vec_y (indexTip g) * 0.8
            in n\<lparr>pan := (fst (pan n) + steerX * dt, snd (pan n) + steerY * dt)\<rparr>)
         else n)
      else n)"

text \<open>
  The block \<open>GESTURE-BASED STATE MACHINE\<close>, one definition for each of its numbered
  steps, in the order of the source. The vibration calls are left out.
\<close>

text \<open>1. Clap: toggle the interaction mode. \<open>md\<close> is the mode read at the start of the frame.\<close>

definition clapStep :: "InteractionMode \<Rightarrow> HandGestures \<Rightarrow> real \<Rightarrow> AnimState \<Rightarrow> AnimState" where
  "clapStep md g dt st =
     (let clap = clapGate (isClapping g) dt (clapCooldown (phys st))
      in st\<lparr>interactionMode :=
                (if fst clap then (if md = OBJECT_ORBIT then IMMERSIVE_FLY else OBJECT_ORBIT)
                 else interactionMode st),
              phys := (phys st)\<lparr>clapCooldown := snd clap\<rparr>\<rparr>)"

text \<open>2. Snap: advance the palette id modulo 5.\<close>

definition snapStep :: "Props \<Rightarrow> HandGestures \<Rightarrow> real \<Rightarrow> AnimState \<Rightarrow> AnimState" where
  "snapStep p g dt st =
     (let snap = cooldownGate 0.5 (isSnapping g) dt (snapCooldown (phys st))
      in updU p (\<lambda>u. if fst snap then u\<lparr>uColorMode := js_rem (uColorMode u + 1) 5\<rparr> else u)
           (st\<lparr>phys := (phys st)\<lparr>snapCooldown := snd snap\<rparr>\<rparr>))"

text \<open>3. Punch: rapid zoom pulse.\<close>

definition punchStep :: "HandGestures \<Rightarrow> real \<Rightarrow> AnimState \<Rightarrow> AnimState" where
  "punchStep g dt st =
     (if isPunching g then st\<lparr>nav := (nav st)\<lparr>zoom := zoom (nav st) * (1 + dt * 3.0)\<rparr>\<rparr> else st)"

text \<open>4. Two-hand smash: reset the navigation, massive repel.\<close>

definition smashStep :: "Props \<Rightarrow> HandGestures \<Rightarrow> AnimState \<Rightarrow> AnimState" where
  "smashStep p g st =
     (if isTwoHandSmash g then
        updU p (\<lambda>u. u\<lparr>uRepelStrength := 5.0\<rparr>) (st\<lparr>nav := (nav st)\<lparr>zoom := 1.0, pan := (0, 0)\<rparr>\<rparr>)
      else st)"

text \<open>5. Victory: counteract the advance of time.\<close>

definition victoryStep :: "HandGestures \<Rightarrow> real \<Rightarrow> AnimState \<Rightarrow> AnimState" where
  "victoryStep g dt st =
     (if isVictory g then st\<lparr>evolutionTime := evolutionTime st - dt\<rparr> else st)"

text \<open>The update of the previous states (step 6 only vibrates).\<close>

definition prevStatesStep :: "HandGestures \<Rightarrow> AnimState \<Rightarrow> AnimState" where
  "prevStatesStep g st =
     st\<lparr>phys := (phys st)\<lparr>wasFist := isFist g, wasPunching := isPunching g,
                            wasVictory := isVictory g, wasSmash := isTwoHandSmash g\<rparr>\<rparr>"

definition navStep :: "InteractionMode \<Rightarrow> HandGestures \<Rightarrow> real \<Rightarrow> AnimState \<Rightarrow> AnimState" where
  "navStep md g dt st = st\<lparr>nav := navigationLogic md g dt (phys st) (nav st)\<rparr>"

text \<open>\<open>phys.lastHandPos.set(g.indexTip.x, g.indexTip.y, g.indexTip.z)\<close>\<close>

definition lastHandStep :: "HandGestures \<Rightarrow> AnimState \<Rightarrow> AnimState" where
  "lastHandStep g st = st\<lparr>phys := (phys st)\<lparr>lastHandPos := indexTip g\<rparr>\<rparr>"

text \<open>
  The whole block: entered when \<open>p.interactiveMode\<close> holds and a hand is counted;
  otherwise only the two haptic flags are reset.
\<close>

definition gestureStateMachine :: "Props \<Rightarrow> HandGestures \<Rightarrow> real \<Rightarrow> AnimState \<Rightarrow> AnimState" where
  "gestureStateMachine p g dt st =
     (if interactiveMode p \<and> 0 < handsCount g then
        lastHandStep g
          (navStep (interactionMode st) g dt
            (prevStatesStep g
              (victoryStep g dt
                (smashStep p g
                  (punchStep g dt
                    (snapStep p g dt
                      (clapStep (interactionMode st) g dt st)))))))
      else st\<lparr>phys := (phys st)\<lparr>wasFist := False, wasPunching := False\<rparr>\<rparr>)"

text \<open>The attract and repel targets chosen in the block \<open>Particle Interaction Specifics\<close>.\<close>

definition forceTargets :: "HandGestures \<Rightarrow> real \<times> real" where
  "forceTargets g =
     (if isTwoHandSmash g then (0.0, 10.0)
      else if isFist g then (3.0, 0.0)
      else if isPinching g then (1.0, 0.0)
      else (0.0, 0.5))"

text \<open>The block \<open>ANIMATION PRESETS\<close>, for \<open>p.activeAnimation !== 'NONE'\<close>.\<close>

definition presetTargets :: "Props \<Rightarrow> AnimState \<Rightarrow> AnimState" where
  "presetTargets p st =
     (if activeAnimation p = MANDELBROT_DIVE then
        st\<lparr>targetMode := 2.0,
           nav := (nav st)\<lparr>zoom := 1.8 powr animPhase st,
                           pan := (- 0.74364388703, 0.13182590421)\<rparr>\<rparr>
      else if activeAnimation p = JULIA_MORPH then
        updU p (\<lambda>u. u\<lparr>uJuliaC := (cos (animPhase st * 0.5) * 0.7885,
                                    sin (animPhase st * 0.3) * 0.7885)\<rparr>)
          (st\<lparr>targetMode := 1.0\<rparr>)
      else st\<lparr>targetMode := js_rem (real_of_int \<lfloor>animPhase st / 5.0\<rfloor>) 7\<rparr>)"

definition presetSync :: "Props \<Rightarrow> AnimState \<Rightarrow> AnimState" where
  "presetSync p st =
     updU p (\<lambda>u. u\<lparr>uZoom := zoom (nav st), uPan := vec2_lerp (uPan u) (pan (nav st)) 0.1\<rparr>) st"

definition animationPresets :: "Props \<Rightarrow> real \<Rightarrow> AnimState \<Rightarrow> AnimState" where
  "animationPresets p dt st = presetSync p (presetTargets p (st\<lparr>animPhase := animPhase st + dt\<rparr>))"

text \<open>The block \<open>MANUAL UPDATES\<close>, for \<open>p.activeAnimation === 'NONE'\<close>.\<close>

definition manualTargets :: "Props \<Rightarrow> AnimState \<Rightarrow> AnimState" where
  "manualTargets p st =
     (let st1 = st\<lparr>targetMode :=
                    (case mode p of
                       JULIA_2D \<Rightarrow> 1.0 | MANDELBROT \<Rightarrow> 2.0 | TRICORN \<Rightarrow> 3.0 | BURNING_SHIP \<Rightarrow> 4.0
                     | MANDELBULB_3D \<Rightarrow> 0.0 | MENGER_SPONGE \<Rightarrow> 5.0 | SIERPINSKI \<Rightarrow> 6.0)\<rparr>
      in if interactiveMode p then st1
         else updU p (\<lambda>u. u\<lparr>uMaxIter := (if iterations p = 0 then 100 else iterations p)\<rparr>) st1)"

definition manualSync :: "Props \<Rightarrow> real \<Rightarrow> AnimState \<Rightarrow> AnimState" where
  "manualSync p dt st =
     (let smoothLambda = 10.0;
          vecDampFactor = 1 - exp (- smoothLambda * dt)
      in updU p (\<lambda>u. u\<lparr>uPower := (if power_prop p = 0 then 8.0 else power_prop p),
                        uZoom := damp (uZoom u) (zoom (nav st)) smoothLambda dt,
                        uPan := vec2_lerp (uPan u) (pan (nav st)) vecDampFactor\<rparr>) st)"

definition particleInteraction :: "Props \<Rightarrow> HandGestures \<Rightarrow> real \<Rightarrow> AnimState \<Rightarrow> AnimState" where
  "particleInteraction p g dt st =
     (if interactiveMode p \<and> 0 < handsCount g then
        updU p (\<lambda>u. u\<lparr>uHandPos := (vec_x (indexTip g), vec_y (indexTip g), 0),
                       uAttractStrength :=
                         damp (uAttractStrength u) (fst (forceTargets g) * attractionSensitivity p) 8.0 dt,
                       uRepelStrength :=
                         damp (uRepelStrength u) (snd (forceTargets g) * attractionSensitivity p) 8.0 dt\<rparr>) st
      else st)"

definition manualUpdates :: "Props \<Rightarrow> HandGestures \<Rightarrow> real \<Rightarrow> AnimState \<Rightarrow> AnimState" where
  "manualUpdates p g dt st = particleInteraction p g dt (manualSync p dt (manualTargets p st))"

text \<open>The end of the frame: time, the damped mode value, and their uniforms.\<close>

definition publishTimeAndMode :: "Props \<Rightarrow> real \<Rightarrow> AnimState \<Rightarrow> AnimState" where
  "publishTimeAndMode p dt st =
     (let t = evolutionTime st + dt * 0.2;
          m = damp (currentModeVal st) (targetMode st) 5.0 dt
      in updU p (\<lambda>u. u\<lparr>uTime := t, uMode := m\<rparr>) (st\<lparr>evolutionTime := t, currentModeVal := m\<rparr>))"

text \<open>
  One call of \<open>animate\<close>: \<open>delta\<close> is the value of \<open>clock.getDelta()\<close>, \<open>g\<close> the gesture
  state the tracker last wrote. Rendering and the handling of resizes are left out.
\<close>

definition animate :: "Props \<Rightarrow> HandGestures \<Rightarrow> real \<Rightarrow> AnimState \<Rightarrow> AnimState" where
  "animate p g delta st =
     (let dt = min delta 0.1
      in publishTimeAndMode p dt
           (if activeAnimation p \<noteq> NONE
            then animationPresets p dt (gestureStateMachine p g dt st)
            else manualUpdates p g dt (gestureStateMachine p g dt st)))"

text \<open>
  \<open>n\<close> consecutive calls of \<open>animate\<close> with the same props, gesture state and clock delta:
  the number of frames in which the interaction mode changed, and the final state.
\<close>

fun animateFrames :: "Props \<Rightarrow> HandGestures \<Rightarrow> real \<Rightarrow> nat \<Rightarrow> AnimState \<Rightarrow> nat \<times> AnimState" where
  "animateFrames p g delta 0 st = (0, st)"
| "animateFrames p g delta (Suc n) st =
     (let st' = animate p g delta st;
          rest = animateFrames p g delta n st'
      in ((if interactionMode st' \<noteq> interactionMode st then 1 else 0) + fst rest, snd rest))"

text \<open>The initial values of the refs, of the materials' uniforms and of the closure's variables.\<close>

definition initGestures :: HandGestures where
  "initGestures =
     \<lparr>indexTip = (0, 0, 0), wristPos = (0, 0, 0), isPinching = False, isPalmOpen = False,
      isFist = False, isPointing = False, isVictory = False, isSnapping = False,
      isWaving = False, isClapping = False, isPunching = False, isTwoHandSmash = False,
      handsDistance = 100, handsCount = 0, gestureName = ''Searching...''\<rparr>"

definition initPhysics :: Physics where
  "initPhysics =
     \<lparr>prevWristZ = 0, punchVelocity = 0, clapCooldown = 0, snapCooldown = 0,
      lastHandPos = (0, 0, 0), wasFist = False, wasPunching = False, wasVictory = False,
      wasSmash = False\<rparr>"

definition initUniforms :: Uniforms where
  "initUniforms =
     \<lparr>uTime = 0, uMode = 0, uJuliaC = (- 0.7, 0.27015), uPower = 8.0, uMaxIter = 100.0,
      uZoom = 1.0, uPan = (0, 0), uColorMode = 0.0, uHandPos = (100, 100, 100),
      uAttractStrength = 0, uRepelStrength = 0\<rparr>"

definition initState :: AnimState where
  "initState =
     \<lparr>nav = \<lparr>zoom = 1.0, pan = (0, 0)\<rparr>, phys = initPhysics, quadU = initUniforms,
      partU = initUniforms, interactionMode = OBJECT_ORBIT, currentModeVal = 0.0,
      evolutionTime = 0.0, targetMode = 0.0, animPhase = 0.0\<rparr>"


section \<open>Gesture classification (src/unnamed/part_002)\<close>

text \<open>\<open>Math.atan2(y, x)\<close>.\<close>

definition atan2 :: "real \<Rightarrow> real \<Rightarrow> real" where
  "atan2 y x =
     (if 0 < x then arctan (y / x)
      else if x < 0 then (if 0 \<le> y then arctan (y / x) + pi else arctan (y / x) - pi)
      else if 0 < y then pi / 2
      else if y < 0 then - pi / 2
      else 0)"

text \<open>The interface \<open>HandGestures\<close> of this revision.\<close>

record HandGestures_pf =
  indexTip_pf :: vec3
  isPinching_pf :: bool
  pinchDistance_pf :: real
  isPalmOpen_pf :: bool
  isFist_pf :: bool
  isSnapping_pf :: bool
  isWaving_pf :: bool
  isStopped_pf :: bool
  wristRotation_pf :: real
  isVisible_pf :: bool
  isClapping_pf :: bool
  handsDistance_pf :: real

text \<open>
  The callback \<open>hands.onResults\<close>: the state is \<open>gesturesRef.current\<close> and the array
  \<open>waveHistoryRef.current\<close>; \<open>isActive\<close> is the flag the clean-up of the effect clears.
  The distances are written out with \<open>Math.sqrt\<close> in the source; they are \<open>dist_xy\<close>.
\<close>

definition onResults_pf ::
  "bool \<Rightarrow> hand list \<Rightarrow> HandGestures_pf \<times> real list \<Rightarrow> HandGestures_pf \<times> real list" where
  "onResults_pf isActive landmarks s =
     (if \<not> isActive then s
      else if 0 < length landmarks then
        (let g = fst s;
             hand1 = landmarks ! 0;
             d = dist_xy (hand1 4) (hand1 8);
             pinching = (d < 0.05);
             palmDist = dist_xy (hand1 5) (hand1 17);
             palmOpen = (0.15 < palmDist \<and> \<not> pinching);
             tipSum = 0 + dist_xy (hand1 8) (hand1 0) + dist_xy (hand1 12) (hand1 0)
                        + dist_xy (hand1 16) (hand1 0) + dist_xy (hand1 20) (hand1 0);
             fist = (tipSum / 4 < 0.3 \<and> \<not> palmOpen);
             h1 = snd s @ [vec_x (hand1 9)];
             h = (if 20 < length h1 then tl h1 else h1);
             range = (if 10 < length h then Max (set h) - Min (set h) else 0)
         in (g\<lparr>isVisible_pf := True,
               indexTip_pf := ((vec_x (hand1 8) - 0.5) * - 12, (vec_y (hand1 8) - 0.5) * - 8, 0),
               pinchDistance_pf := d,
               isPinching_pf := pinching,
               isSnapping_pf := (dist_xy (hand1 4) (hand1 12) < 0.04 \<and> 0.06 < d),
               wristRotation_pf :=
                 atan2 (vec_y (hand1 0) - vec_y (hand1 9)) (vec_x (hand1 0) - vec_x (hand1 9)),
               isPalmOpen_pf := palmOpen,
               isStopped_pf := palmOpen,
               isFist_pf := fist,
               isWaving_pf := (0.25 < range \<and> \<not> fist),
               isClapping_pf :=
                 (if length landmarks = 2 then dist_xy (hand1 9) ((landmarks ! 1) 9) < 0.12
                  else False)\<rparr>,
             h))
      else ((fst s)\<lparr>isVisible_pf := False\<rparr>, snd s))"

section \<open>The render loop (src/unnamed/part_002)\<close>

text \<open>\<open>const lerp = (start, end, t) => start * (1 - t) + end * t\<close>\<close>

definition lerp_pf :: "real \<Rightarrow> real \<Rightarrow> real \<Rightarrow> real" where
  "lerp_pf start end' t = start * (1 - t) + end' * t"

text \<open>The uniforms of the particle material of this revision.\<close>

record Uniforms_pf =
  uTime_pf :: real
  uMode_pf :: real
  uHandPos_pf :: vec3
  uAttractStrength_pf :: real
  uRepelStrength_pf :: real
  uPower_pf :: real
  uJuliaC_pf :: vec2
  uPinchScale_pf :: real
  uExplosion_pf :: real
  uChaos_pf :: real
  uSnap_pf :: real
  uMaxIter_pf :: real
  uVisualMode_pf :: real
  uZoom_pf :: real
  uPan_pf :: vec2
  uColorMode_pf :: real

text \<open>
  What \<open>animate\<close> reads and writes across frames in this revision: \<open>navRef\<close>, the
  uniforms, \<open>smoothedRef\<close> (hand position and rotation), the closure's variables and the
  camera's position. \<open>Props\<close> stands for \<open>paramsRef\<close>, \<open>modeRef\<close> and \<open>animationRef\<close>.
\<close>

record AnimState_pf =
  nav_pf :: Nav
  u_pf :: Uniforms_pf
  smoothedHandPos_pf :: vec3
  smoothedRotation_pf :: real
  evolutionTime_pf :: real
  targetMode_pf :: real
  animPhase_pf :: real
  currentJulia_pf :: vec2
  cameraPos_pf :: vec3

text \<open>
  The block \<open>ANIMATION PRESETS ENGINE\<close>, for \<open>anim && anim !== 'NONE'\<close>. The variable
  \<open>currentModeVal\<close> of this revision is initialised to 0.0 and never assigned.
\<close>

definition presetEngine_pf :: "Props \<Rightarrow> real \<Rightarrow> AnimState_pf \<Rightarrow> AnimState_pf" where
  "presetEngine_pf p dt st0 =
     (let st = st0\<lparr>animPhase_pf := animPhase_pf st0 + dt\<rparr>;
          n = nav_pf st;
          u = u_pf st;
          st1 =
            (if activeAnimation p = MANDELBROT_DIVE then
               st\<lparr>targetMode_pf := 2.0,
                  nav_pf := n\<lparr>zoom := zoom n * (1.0 + dt * 0.5),
                               pan := (lerp_pf (fst (pan n)) (- 0.745) (dt * 0.1),
                                       lerp_pf (snd (pan n)) 0.186 (dt * 0.1))\<rparr>,
                  u_pf := u\<lparr>uMaxIter_pf := 100.0\<rparr>\<rparr>
             else if activeAnimation p = JULIA_MORPH then
               st\<lparr>targetMode_pf := 1.0,
                  nav_pf := n\<lparr>zoom := 1.2, pan := (0, 0)\<rparr>,
                  u_pf := u\<lparr>uJuliaC_pf := (sin (animPhase_pf st * 0.5) * 0.7,
                                             cos (animPhase_pf st * 0.3) * 0.7)\<rparr>\<rparr>
             else if activeAnimation p = UNIVERSE_TOUR then
               st\<lparr>targetMode_pf := real_of_int \<lfloor>js_rem (animPhase_pf st * 0.2) 7\<rfloor>,
                  u_pf := u\<lparr>uVisualMode_pf := 1.0\<rparr>\<rparr>
             else if activeAnimation p = COLOR_SYMPHONY then
               st\<lparr>evolutionTime_pf := evolutionTime_pf st + dt * 5.0, targetMode_pf := 0.0\<rparr>
             else if activeAnimation p = INFINITY_ZOOM then
               st\<lparr>targetMode_pf := 2.0,
                  nav_pf := n\<lparr>zoom := (if 1000.0 < zoom n * 1.01 then 1.0 else zoom n * 1.01)\<rparr>\<rparr>
             else st)
      in st1\<lparr>u_pf := (u_pf st1)\<lparr>uVisualMode_pf := 1.0\<rparr>\<rparr>)"

text \<open>The block \<open>STANDARD INTERACTIVE LOGIC\<close>, the only place where gestures are read.\<close>

definition interactiveLogic_pf ::
  "Props \<Rightarrow> HandGestures_pf \<Rightarrow> real \<Rightarrow> AnimState_pf \<Rightarrow> AnimState_pf" where
  "interactiveLogic_pf p g dt st0 =
     (let u0 = (u_pf st0)\<lparr>uMaxIter_pf := iterations p, uPower_pf := power_prop p,
                          uColorMode_pf := colorMode p\<rparr>;
          st = st0\<lparr>u_pf := u0,
                   targetMode_pf :=
                     (case mode p of
                        JULIA_2D \<Rightarrow> 1.0 | MANDELBROT \<Rightarrow> 2.0 | TRICORN \<Rightarrow> 3.0 | BURNING_SHIP \<Rightarrow> 4.0
                      | MENGER_SPONGE \<Rightarrow> 5.0 | SIERPINSKI \<Rightarrow> 6.0 | MANDELBULB_3D \<Rightarrow> 0.0)\<rparr>
      in if interactiveMode p then
           (let st1 = st\<lparr>evolutionTime_pf :=
                           (if isStopped_pf g then evolutionTime_pf st else evolutionTime_pf st + dt),
                         u_pf := u0\<lparr>uVisualMode_pf := 0.0\<rparr>\<rparr>;
                u1 = u_pf st1
            in if isVisible_pf g then
                 (let rawPos = indexTip_pf g;
                      hp = smoothedHandPos_pf st1;
                      hp' = (vec_x hp + (vec_x rawPos - vec_x hp) * 0.1,
                             vec_y hp + (vec_y rawPos - vec_y hp) * 0.1,
                             vec_z hp + (vec_z rawPos - vec_z hp) * 0.1);
                      rot = lerp_pf (smoothedRotation_pf st1) (wristRotation_pf g) (morphSpeed p);
                      julia = (0.7885 * cos (rot * 2.5), 0.7885 * sin (rot * 2.5));
                      cam = cameraPos_pf st1
                  in st1\<lparr>smoothedHandPos_pf := hp',
                         smoothedRotation_pf := rot,
                         currentJulia_pf := julia,
                         u_pf := u1\<lparr>uHandPos_pf := hp',
                                   uAttractStrength_pf :=
                                     lerp_pf (uAttractStrength_pf u1)
                                       ((if isPinching_pf g \<or> isStopped_pf g then 0 else 1)
                                          * attractionSensitivity p) 0.1,
                                   uRepelStrength_pf :=
                                     lerp_pf (uRepelStrength_pf u1)
                                       ((if isStopped_pf g then 1 else 0) * attractionSensitivity p) 0.1,
                                   uPinchScale_pf :=
                                     lerp_pf (uPinchScale_pf u1)
                                       ((if isPinching_pf g then 1 else 0) * pinchSensitivity p) 0.1,
                                   uExplosion_pf :=
                                     lerp_pf (uExplosion_pf u1) (if isClapping_pf g then 1 else 0) 0.1,
                                   uChaos_pf := lerp_pf (uChaos_pf u1) (if isFist_pf g then 1 else 0) 0.1,
                                   uSnap_pf := lerp_pf (uSnap_pf u1) (if isSnapping_pf g then 1 else 0) 0.1,
                                   uJuliaC_pf := julia\<rparr>,
                         cameraPos_pf :=
                           (if isWaving_pf g
                            then (lerp_pf (vec_x cam) (vec_x (indexTip_pf g) * 0.5) 0.05, vec_y cam, vec_z cam)
                            else cam)\<rparr>)
               else st1\<lparr>u_pf := u1\<lparr>uHandPos_pf := (100, 100, 100),
                                     uAttractStrength_pf := uAttractStrength_pf u1 * 0.95\<rparr>\<rparr>)
         else st\<lparr>u_pf := u0\<lparr>uVisualMode_pf := 1.0, uHandPos_pf := (100, 100, 100)\<rparr>\<rparr>)"

text \<open>The block \<open>Apply Common Uniforms\<close>.\<close>

definition commonUniforms_pf :: "real \<Rightarrow> AnimState_pf \<Rightarrow> AnimState_pf" where
  "commonUniforms_pf dt st =
     st\<lparr>u_pf := (u_pf st)\<lparr>uMode_pf := uMode_pf (u_pf st)
                                       + (targetMode_pf st - uMode_pf (u_pf st)) * dt * 3.0,
                           uTime_pf := evolutionTime_pf st,
                           uZoom_pf := zoom (nav_pf st),
                           uPan_pf := pan (nav_pf st)\<rparr>\<rparr>"

text \<open>
  The block \<open>Camera Orbit\<close>: the camera's position is the only thing it writes (the
  particles' rotation is a function of the time alone and is left out).
\<close>

definition cameraOrbit_pf :: "Props \<Rightarrow> HandGestures_pf \<Rightarrow> AnimState_pf \<Rightarrow> AnimState_pf" where
  "cameraOrbit_pf p g st =
     (if interactiveMode p \<and> (\<not> isVisible_pf g \<or> \<not> isWaving_pf g) then
        st\<lparr>cameraPos_pf := (sin (evolutionTime_pf st * 0.1) * 0.5,
                             cos (evolutionTime_pf st * 0.15) * 0.5,
                             vec_z (cameraPos_pf st))\<rparr>
      else if \<not> interactiveMode p \<or> activeAnimation p \<noteq> NONE then
        st\<lparr>cameraPos_pf := (0, 0, 5)\<rparr>
      else st)"

text \<open>One call of \<open>animate\<close>; \<open>dt\<close> is \<open>clock.getDelta()\<close>, which this revision does not clamp.\<close>

definition animate_pf :: "Props \<Rightarrow> HandGestures_pf \<Rightarrow> real \<Rightarrow> AnimState_pf \<Rightarrow> AnimState_pf" where
  "animate_pf p g dt st =
     cameraOrbit_pf p g
       (commonUniforms_pf dt
         (if activeAnimation p \<noteq> NONE then presetEngine_pf p dt st
          else interactiveLogic_pf p g dt st))"


section \<open>Starting a preset (src/App.tsx)\<close>

text \<open>
  The two state variables of \<open>App\<close> that reach the component as the props
  \<open>interactiveMode\<close> and \<open>activeAnimation\<close>.
\<close>

record AppState =
  appInteractive :: bool
  appAnimation :: AnimationPreset

text \<open>
  \<open>playAnimation\<close> in the first revision of \<open>App\<close> in the file (the one with
  \<open>interactiveMode\<close>): starting a preset leaves interactive mode.
\<close>

definition playAnimation_v1 :: "AnimationPreset \<Rightarrow> AppState \<Rightarrow> AppState" where
  "playAnimation_v1 preset s = s\<lparr>appAnimation := preset, appInteractive := False\<rparr>"

text \<open>
  \<open>playAnimation\<close> and the interactive toggle in the second revision (the one with
  \<open>isInteractive\<close>, whose iteration slider reaches 500).
\<close>

definition playAnimation :: "AnimationPreset \<Rightarrow> AppState \<Rightarrow> AppState" where
  "playAnimation preset s = s\<lparr>appAnimation := preset\<rparr>"

definition toggleInteractive :: "AppState \<Rightarrow> AppState" where
  "toggleInteractive s = s\<lparr>appInteractive := \<not> appInteractive s\<rparr>"


section \<open>Concrete inputs\<close>

text \<open>A hand whose 21 landmarks coincide at \<open>(x, 0.5)\<close>: every fingertip is at the wrist.\<close>

definition fistAt :: "real \<Rightarrow> hand" where
  "fistAt x = (\<lambda>i. (x, 0.5, 0))"

text \<open>Props of an interactive session with no animation preset.\<close>

definition interactiveProps :: Props where
  "interactiveProps =
     \<lparr>mode = MANDELBROT, attractionSensitivity = 1.0, pinchSensitivity = 1.0, morphSpeed = 0.1,
      iterations = 100, power_prop = 8.0, interactiveMode = True, activeAnimation = NONE,
      colorMode = 1\<rparr>"

text \<open>The initial value of \<open>gesturesRef.current\<close> in src/unnamed/part_002.\<close>

definition initGestures_pf :: HandGestures_pf where
  "initGestures_pf =
     \<lparr>indexTip_pf = (0, 0, 0), isPinching_pf = False, pinchDistance_pf = 0,
      isPalmOpen_pf = False, isFist_pf = False, isSnapping_pf = False, isWaving_pf = False,
      isStopped_pf = False, wristRotation_pf = 0, isVisible_pf = False, isClapping_pf = False,
      handsDistance_pf = 100\<rparr>"


text \<open>A colour whose three channels lie in \<open>[0, 1]\<close>.\<close>

definition channel_bounded :: "vec3 \<Rightarrow> bool" where
  "channel_bounded v =
     (0 \<le> vec_x v \<and> vec_x v \<le> 1 \<and> 0 \<le> vec_y v \<and> vec_y v \<le> 1 \<and> 0 \<le> vec_z v \<and> vec_z v \<le> 1)"


text \<open>
  A pinching hand in the lower part of the camera image: the wrist at \<open>(0.5, 1)\<close>, thumb
  tip and index tip together at \<open>(0.5, 0.75)\<close>, every other landmark at \<open>(0.5, 0.7)\<close>.
\<close>

definition pinchLow :: hand where
  "pinchLow = (\<lambda>i. if i = 0 then (0.5, 1, 0) else if i = 4 \<or> i = 8 then (0.5, 0.75, 0) else (0.5, 0.7, 0))"

text \<open>A fist at the centre of the image whose wrist depth is 0.2.\<close>

definition fistPushed :: hand where
  "fistPushed = (\<lambda>i. (0.5, 0.5, 0.2))"

text \<open>Props of an interactive session with the preset \<open>JULIA_MORPH\<close> active.\<close>

definition presetProps :: Props where
  "presetProps = interactiveProps\<lparr>activeAnimation := JULIA_MORPH\<rparr>"

text \<open>Two fists with the wrists 0.05 apart, as one frame of the tracker.\<close>

definition twoFists :: "hand list" where
  "twoFists = [fistAt 0.5, fistAt 0.55]"

text \<open>The gesture state after the first callback of a session, on the landmarks \<open>lms\<close>.\<close>

definition firstCallback :: "hand list \<Rightarrow> HandGestures" where
  "firstCallback lms = fst (onResults lms (initGestures, initPhysics))"


text \<open>
  A point just right of the cusp of the Mandelbrot set, whose orbit escapes slowly, and
  integer bounds (in units of \<open>10\<^sup>-\<^sup>9\<close>) on the real parts of its iterates
  \<open>x \<mapsto> x\<^sup>2 + 0.2508\<close> from 0.
\<close>

definition slowPoint :: vec2 where
  "slowPoint = (0.2508, 0)"

fun orbitLower :: "nat \<Rightarrow> int" where
  "orbitLower 0 = 0"
| "orbitLower (Suc n) = (orbitLower n)\<^sup>2 div 1000000000 + 250800000"

fun orbitUpper :: "nat \<Rightarrow> int" where
  "orbitUpper 0 = 0"
| "orbitUpper (Suc n) = (orbitUpper n)\<^sup>2 div 1000000000 + 1 + 250800000"


section \<open>Properties\<close>

subsection \<open>Damping\<close>

lemma damp_closed_form:
  "damp x target lambda dt = target * (1 - exp (- lambda * dt)) + x * exp (- lambda * dt)"
  by (simp add: damp_def lerp_def algebra_simps)

lemma damp_steps_closed_form:
  "damp_steps x target lambda dts =
     target * (1 - exp (- lambda * sum_list dts)) + x * exp (- lambda * sum_list dts)"
proof (induction dts arbitrary: x)
  case Nil
  show ?case by simp
next
  case (Cons dt dts)
  define a where "a = exp (- lambda * dt)"
  define b where "b = exp (- lambda * sum_list dts)"
  have "- lambda * (dt + sum_list dts) = (- lambda * dt) + (- lambda * sum_list dts)"
    by (simp add: algebra_simps)
  then have e: "exp (- lambda * sum_list (dt # dts)) = a * b"
    by (simp only: exp_add a_def b_def sum_list.Cons)
  have "damp_steps x target lambda (dt # dts) = target * (1 - b) + (target * (1 - a) + x * a) * b"
    by (simp only: damp_steps.simps Cons.IH damp_closed_form a_def b_def)
  also have "\<dots> = target * (1 - a * b) + x * (a * b)"
    by (simp add: algebra_simps)
  finally show ?case
    by (simp only: e)
qed

text \<open>
  C6. Iterating the damping update over any partition \<open>dts\<close> of an elapsed time into
  positive steps, with \<open>lambda > 0\<close>, gives
  \<open>target * (1 - exp (- lambda * t)) + initial * exp (- lambda * t)\<close> for \<open>t\<close> the sum of
  the steps, which is also the result of one single step of size \<open>t\<close>.
\<close>

theorem damp_step_granularity_independent:
  assumes "0 < lambda" and "\<forall>dt \<in> set dts. 0 < dt"
  shows "damp_steps initial target lambda dts =
           target * (1 - exp (- lambda * sum_list dts)) + initial * exp (- lambda * sum_list dts)
         \<and> damp_steps initial target lambda dts = damp initial target lambda (sum_list dts)"
  by (simp add: damp_steps_closed_form damp_closed_form)

theorem damp_step_granularity_independent_witness:
  "damp_steps 0 2 5 [1/60, 1/30, 1/20] = damp 0 2 5 (sum_list [1/60, 1/30, 1/20])
   \<and> damp_steps 0 2 5 [1/60, 1/30, 1/20] = 2 * (1 - exp (- 5 * sum_list [1/60, 1/30, 1/20]))"
  using damp_step_granularity_independent [of 5 "[1/60, 1/30, 1/20]" 0 2] by simp

subsection \<open>What each step of the render loop changes\<close>

lemma updU_fields [simp]:
  "nav (updU p f st) = nav st"
  "phys (updU p f st) = phys st"
  "interactionMode (updU p f st) = interactionMode st"
  "currentModeVal (updU p f st) = currentModeVal st"
  "evolutionTime (updU p f st) = evolutionTime st"
  "targetMode (updU p f st) = targetMode st"
  "animPhase (updU p f st) = animPhase st"
  "partU (updU p f st) = (if interactiveMode p then f (partU st) else partU st)"
  "quadU (updU p f st) = (if interactiveMode p then quadU st else f (quadU st))"
  by (simp_all add: updU_def)

lemma clapStep_fields [simp]:
  "nav (clapStep md g dt st) = nav st"
  "partU (clapStep md g dt st) = partU st"
  "quadU (clapStep md g dt st) = quadU st"
  "currentModeVal (clapStep md g dt st) = currentModeVal st"
  "evolutionTime (clapStep md g dt st) = evolutionTime st"
  "targetMode (clapStep md g dt st) = targetMode st"
  "animPhase (clapStep md g dt st) = animPhase st"
  "phys (clapStep md g dt st)
     = (phys st)\<lparr>clapCooldown := snd (clapGate (isClapping g) dt (clapCooldown (phys st)))\<rparr>"
  "interactionMode (clapStep md g dt st)
     = (if fst (clapGate (isClapping g) dt (clapCooldown (phys st)))
        then (if md = OBJECT_ORBIT then IMMERSIVE_FLY else OBJECT_ORBIT)
        else interactionMode st)"
  by (simp_all add: clapStep_def Let_def)

lemma snapStep_fields [simp]:
  "nav (snapStep p g dt st) = nav st"
  "interactionMode (snapStep p g dt st) = interactionMode st"
  "currentModeVal (snapStep p g dt st) = currentModeVal st"
  "evolutionTime (snapStep p g dt st) = evolutionTime st"
  "targetMode (snapStep p g dt st) = targetMode st"
  "animPhase (snapStep p g dt st) = animPhase st"
  "phys (snapStep p g dt st)
     = (phys st)\<lparr>snapCooldown := snd (cooldownGate 0.5 (isSnapping g) dt (snapCooldown (phys st)))\<rparr>"
  "partU (snapStep p g dt st)
     = (if interactiveMode p \<and> fst (cooldownGate 0.5 (isSnapping g) dt (snapCooldown (phys st)))
        then (partU st)\<lparr>uColorMode := js_rem (uColorMode (partU st) + 1) 5\<rparr> else partU st)"
  "quadU (snapStep p g dt st)
     = (if \<not> interactiveMode p \<and> fst (cooldownGate 0.5 (isSnapping g) dt (snapCooldown (phys st)))
        then (quadU st)\<lparr>uColorMode := js_rem (uColorMode (quadU st) + 1) 5\<rparr> else quadU st)"
  by (simp_all add: snapStep_def Let_def)

lemma punchStep_fields [simp]:
  "phys (punchStep g dt st) = phys st"
  "partU (punchStep g dt st) = partU st"
  "quadU (punchStep g dt st) = quadU st"
  "interactionMode (punchStep g dt st) = interactionMode st"
  "currentModeVal (punchStep g dt st) = currentModeVal st"
  "evolutionTime (punchStep g dt st) = evolutionTime st"
  "targetMode (punchStep g dt st) = targetMode st"
  "animPhase (punchStep g dt st) = animPhase st"
  "nav (punchStep g dt st)
     = (if isPunching g then (nav st)\<lparr>zoom := zoom (nav st) * (1 + dt * 3.0)\<rparr> else nav st)"
  by (simp_all add: punchStep_def)

lemma smashStep_fields [simp]:
  "phys (smashStep p g st) = phys st"
  "interactionMode (smashStep p g st) = interactionMode st"
  "currentModeVal (smashStep p g st) = currentModeVal st"
  "evolutionTime (smashStep p g st) = evolutionTime st"
  "targetMode (smashStep p g st) = targetMode st"
  "animPhase (smashStep p g st) = animPhase st"
  "nav (smashStep p g st)
     = (if isTwoHandSmash g then (nav st)\<lparr>zoom := 1.0, pan := (0, 0)\<rparr> else nav st)"
  "partU (smashStep p g st)
     = (if isTwoHandSmash g \<and> interactiveMode p then (partU st)\<lparr>uRepelStrength := 5.0\<rparr>
        else partU st)"
  "quadU (smashStep p g st)
     = (if isTwoHandSmash g \<and> \<not> interactiveMode p then (quadU st)\<lparr>uRepelStrength := 5.0\<rparr>
        else quadU st)"
  by (simp_all add: smashStep_def)

lemma victoryStep_fields [simp]:
  "nav (victoryStep g dt st) = nav st"
  "phys (victoryStep g dt st) = phys st"
  "partU (victoryStep g dt st) = partU st"
  "quadU (victoryStep g dt st) = quadU st"
  "interactionMode (victoryStep g dt st) = interactionMode st"
  "currentModeVal (victoryStep g dt st) = currentModeVal st"
  "targetMode (victoryStep g dt st) = targetMode st"
  "animPhase (victoryStep g dt st) = animPhase st"
  "evolutionTime (victoryStep g dt st)
     = (if isVictory g then evolutionTime st - dt else evolutionTime st)"
  by (simp_all add: victoryStep_def)

lemma prevStatesStep_fields [simp]:
  "nav (prevStatesStep g st) = nav st"
  "partU (prevStatesStep g st) = partU st"
  "quadU (prevStatesStep g st) = quadU st"
  "interactionMode (prevStatesStep g st) = interactionMode st"
  "currentModeVal (prevStatesStep g st) = currentModeVal st"
  "evolutionTime (prevStatesStep g st) = evolutionTime st"
  "targetMode (prevStatesStep g st) = targetMode st"
  "animPhase (prevStatesStep g st) = animPhase st"
  "phys (prevStatesStep g st)
     = (phys st)\<lparr>wasFist := isFist g, wasPunching := isPunching g,
                  wasVictory := isVictory g, wasSmash := isTwoHandSmash g\<rparr>"
  by (simp_all add: prevStatesStep_def)

lemma navStep_fields [simp]:
  "phys (navStep md g dt st) = phys st"
  "partU (navStep md g dt st) = partU st"
  "quadU (navStep md g dt st) = quadU st"
  "interactionMode (navStep md g dt st) = interactionMode st"
  "currentModeVal (navStep md g dt st) = currentModeVal st"
  "evolutionTime (navStep md g dt st) = evolutionTime st"
  "targetMode (navStep md g dt st) = targetMode st"
  "animPhase (navStep md g dt st) = animPhase st"
  "nav (navStep md g dt st) = navigationLogic md g dt (phys st) (nav st)"
  by (simp_all add: navStep_def)

lemma lastHandStep_fields [simp]:
  "nav (lastHandStep g st) = nav st"
  "partU (lastHandStep g st) = partU st"
  "quadU (lastHandStep g st) = quadU st"
  "interactionMode (lastHandStep g st) = interactionMode st"
  "currentModeVal (lastHandStep g st) = currentModeVal st"
  "evolutionTime (lastHandStep g st) = evolutionTime st"
  "targetMode (lastHandStep g st) = targetMode st"
  "animPhase (lastHandStep g st) = animPhase st"
  "phys (lastHandStep g st) = (phys st)\<lparr>lastHandPos := indexTip g\<rparr>"
  by (simp_all add: lastHandStep_def)

lemma presetTargets_fields [simp]:
  "phys (presetTargets p st) = phys st"
  "interactionMode (presetTargets p st) = interactionMode st"
  "currentModeVal (presetTargets p st) = currentModeVal st"
  "evolutionTime (presetTargets p st) = evolutionTime st"
  "animPhase (presetTargets p st) = animPhase st"
  "nav (presetTargets p st)
     = (if activeAnimation p = MANDELBROT_DIVE
        then (nav st)\<lparr>zoom := 1.8 powr animPhase st, pan := (- 0.74364388703, 0.13182590421)\<rparr>
        else nav st)"
  "uZoom (partU (presetTargets p st)) = uZoom (partU st)"
  "uColorMode (partU (presetTargets p st)) = uColorMode (partU st)"
  "uRepelStrength (partU (presetTargets p st)) = uRepelStrength (partU st)"
  "uAttractStrength (partU (presetTargets p st)) = uAttractStrength (partU st)"
  by (simp_all add: presetTargets_def)

lemma presetSync_fields [simp]:
  "nav (presetSync p st) = nav st"
  "phys (presetSync p st) = phys st"
  "interactionMode (presetSync p st) = interactionMode st"
  "currentModeVal (presetSync p st) = currentModeVal st"
  "evolutionTime (presetSync p st) = evolutionTime st"
  "targetMode (presetSync p st) = targetMode st"
  "animPhase (presetSync p st) = animPhase st"
  "uZoom (partU (presetSync p st)) = (if interactiveMode p then zoom (nav st) else uZoom (partU st))"
  "uColorMode (partU (presetSync p st)) = uColorMode (partU st)"
  "uRepelStrength (partU (presetSync p st)) = uRepelStrength (partU st)"
  "uAttractStrength (partU (presetSync p st)) = uAttractStrength (partU st)"
  by (simp_all add: presetSync_def)

lemma manualTargets_fields [simp]:
  "nav (manualTargets p st) = nav st"
  "phys (manualTargets p st) = phys st"
  "interactionMode (manualTargets p st) = interactionMode st"
  "currentModeVal (manualTargets p st) = currentModeVal st"
  "evolutionTime (manualTargets p st) = evolutionTime st"
  "animPhase (manualTargets p st) = animPhase st"
  "partU (manualTargets p st) = partU st"
  by (simp_all add: manualTargets_def Let_def)

lemma manualSync_fields [simp]:
  "nav (manualSync p dt st) = nav st"
  "phys (manualSync p dt st) = phys st"
  "interactionMode (manualSync p dt st) = interactionMode st"
  "currentModeVal (manualSync p dt st) = currentModeVal st"
  "evolutionTime (manualSync p dt st) = evolutionTime st"
  "targetMode (manualSync p dt st) = targetMode st"
  "animPhase (manualSync p dt st) = animPhase st"
  "uColorMode (partU (manualSync p dt st)) = uColorMode (partU st)"
  "uRepelStrength (partU (manualSync p dt st)) = uRepelStrength (partU st)"
  "uAttractStrength (partU (manualSync p dt st)) = uAttractStrength (partU st)"
  "uZoom (partU (manualSync p dt st))
     = (if interactiveMode p then damp (uZoom (partU st)) (zoom (nav st)) 10.0 dt
        else uZoom (partU st))"
  by (simp_all add: manualSync_def Let_def)

lemma particleInteraction_fields [simp]:
  "nav (particleInteraction p g dt st) = nav st"
  "phys (particleInteraction p g dt st) = phys st"
  "interactionMode (particleInteraction p g dt st) = interactionMode st"
  "currentModeVal (particleInteraction p g dt st) = currentModeVal st"
  "evolutionTime (particleInteraction p g dt st) = evolutionTime st"
  "targetMode (particleInteraction p g dt st) = targetMode st"
  "animPhase (particleInteraction p g dt st) = animPhase st"
  "uZoom (partU (particleInteraction p g dt st)) = uZoom (partU st)"
  "uColorMode (partU (particleInteraction p g dt st)) = uColorMode (partU st)"
  "uRepelStrength (partU (particleInteraction p g dt st))
     = (if interactiveMode p \<and> 0 < handsCount g
        then damp (uRepelStrength (partU st)) (snd (forceTargets g) * attractionSensitivity p) 8.0 dt
        else uRepelStrength (partU st))"
  "uAttractStrength (partU (particleInteraction p g dt st))
     = (if interactiveMode p \<and> 0 < handsCount g
        then damp (uAttractStrength (partU st)) (fst (forceTargets g) * attractionSensitivity p) 8.0 dt
        else uAttractStrength (partU st))"
  by (simp_all add: particleInteraction_def)

lemma publishTimeAndMode_fields [simp]:
  "nav (publishTimeAndMode p dt st) = nav st"
  "phys (publishTimeAndMode p dt st) = phys st"
  "interactionMode (publishTimeAndMode p dt st) = interactionMode st"
  "targetMode (publishTimeAndMode p dt st) = targetMode st"
  "animPhase (publishTimeAndMode p dt st) = animPhase st"
  "uZoom (partU (publishTimeAndMode p dt st)) = uZoom (partU st)"
  "uColorMode (partU (publishTimeAndMode p dt st)) = uColorMode (partU st)"
  "uRepelStrength (partU (publishTimeAndMode p dt st)) = uRepelStrength (partU st)"
  "uAttractStrength (partU (publishTimeAndMode p dt st)) = uAttractStrength (partU st)"
  by (simp_all add: publishTimeAndMode_def Let_def)


subsection \<open>Gesture classification\<close>

text \<open>What the classifier of part_001 makes of the concrete frames.\<close>

lemma pinchLow_gestures:
  "isPinching (firstCallback [pinchLow])"
  "\<not> isFist (firstCallback [pinchLow])"
  "\<not> isPunching (firstCallback [pinchLow])"
  "\<not> isTwoHandSmash (firstCallback [pinchLow])"
  "indexTip (firstCallback [pinchLow]) = (0, - 1, 0)"
  "handsCount (firstCallback [pinchLow]) = 1"
  by (simp_all add: firstCallback_def onResults_def Let_def pinchLow_def avgTipDist_def dist_xy_def
        initGestures_def initPhysics_def mapX_def mapY_def)

lemma fistPushed_gestures:
  "isPunching (firstCallback [fistPushed])"
  "isFist (firstCallback [fistPushed])"
  "\<not> isTwoHandSmash (firstCallback [fistPushed])"
  "handsCount (firstCallback [fistPushed]) = 1"
  by (simp_all add: firstCallback_def onResults_def Let_def fistPushed_def avgTipDist_def dist_xy_def
        initGestures_def initPhysics_def)

lemma two_fists_gestures:
  "isClapping (firstCallback twoFists)"
  "isTwoHandSmash (firstCallback twoFists)"
  "handsCount (firstCallback twoFists) = 2"
  by (simp_all add: firstCallback_def twoFists_def onResults_def Let_def fistAt_def avgTipDist_def dist_xy_def)

text \<open>
  C9. When a tracking callback reports zero hands, every field of the gesture state other
  than the hands count and the display label keeps its value (and so does the physics
  state): in part_001 and in components/FractalVis.tsx.
\<close>

theorem zero_hands_keeps_gesture_state:
  "onResults [] (g, ph) = (g\<lparr>handsCount := 0, gestureName := ''NO HANDS''\<rparr>, ph)
   \<and> onResults_cmp [] g = g\<lparr>handsCount := 0, gestureName := ''NO HANDS''\<rparr>"
  by (simp add: onResults_def onResults_cmp_def)

text \<open>
  C10. After a callback that detects at least one hand but fewer than two, the two-hand
  booleans are false whatever they were before: \<open>isClapping\<close> and \<open>isTwoHandSmash\<close> in
  part_001, \<open>isClapping\<close> in part_002 (which has no smash gesture).
\<close>

theorem one_hand_clears_two_hand_gestures:
  assumes "0 < length landmarks" and "length landmarks < 2"
  shows "\<not> isClapping (fst (onResults landmarks s))
         \<and> \<not> isTwoHandSmash (fst (onResults landmarks s))
         \<and> \<not> isClapping_pf (fst (onResults_pf True landmarks s'))"
  using assms by (simp add: onResults_def onResults_pf_def Let_def)

theorem one_hand_clears_two_hand_gestures_witness:
  "isClapping (fst (onResults [fistAt 0.5, fistAt 0.55] (initGestures, initPhysics)))
   \<and> isTwoHandSmash (fst (onResults [fistAt 0.5, fistAt 0.55] (initGestures, initPhysics)))
   \<and> \<not> isClapping (fst (onResults [fistAt 0.5]
          (onResults [fistAt 0.5, fistAt 0.55] (initGestures, initPhysics))))
   \<and> \<not> isTwoHandSmash (fst (onResults [fistAt 0.5]
          (onResults [fistAt 0.5, fistAt 0.55] (initGestures, initPhysics))))
   \<and> isClapping_pf (fst (onResults_pf True [fistAt 0.5, fistAt 0.55] (initGestures_pf, [])))
   \<and> \<not> isClapping_pf (fst (onResults_pf True [fistAt 0.5]
          (onResults_pf True [fistAt 0.5, fistAt 0.55] (initGestures_pf, []))))"
proof -
  have d: "dist_xy (fistAt (1 / 2) i) (fistAt (11 / 20) j) = 1 / 20" for i j
    by (simp add: fistAt_def dist_xy_def)
  have a: "avgTipDist (fistAt x) = 0" for x
    by (simp add: fistAt_def avgTipDist_def dist_xy_def)
  have two: "isClapping (fst (onResults [fistAt 0.5, fistAt 0.55] (initGestures, initPhysics)))"
    "isTwoHandSmash (fst (onResults [fistAt 0.5, fistAt 0.55] (initGestures, initPhysics)))"
    "isClapping_pf (fst (onResults_pf True [fistAt 0.5, fistAt 0.55] (initGestures_pf, [])))"
    by (simp_all add: onResults_def onResults_pf_def Let_def d a)
  from one_hand_clears_two_hand_gestures
         [of "[fistAt 0.5]" "onResults [fistAt 0.5, fistAt 0.55] (initGestures, initPhysics)"
             "onResults_pf True [fistAt 0.5, fistAt 0.55] (initGestures_pf, [])"]
  show ?thesis
    using two by simp
qed

text \<open>The repel target of \<open>forceTargets\<close> never exceeds the smash tier.\<close>

lemma force_targets_repel_le: "snd (forceTargets g) \<le> 10"
  by (simp add: forceTargets_def)

text \<open>
  C7. When two hands are present, both classify as fists (mean fingertip-to-wrist
  distance below 0.25) and the wrists are closer than 0.15, the classifier of part_001
  sets \<open>isTwoHandSmash\<close>, and the force targets of that frame are the smash tier
  (attract 0, repel 10, the largest repel target of all), whatever the pinch, palm and
  fist booleans are; in an interactive frame without a preset the repel uniform is
  damped towards \<open>10 * attractionSensitivity\<close> from the 5.0 that the state machine sets.
\<close>

theorem two_hand_smash_strongest_repel:
  assumes "landmarks = [h1, h2]"
    and "avgTipDist h1 < 0.25" and "avgTipDist h2 < 0.25"
    and "dist_xy (h1 0) (h2 0) < 0.15"
    and "interactiveMode p" and "activeAnimation p = NONE"
  shows "isTwoHandSmash (fst (onResults landmarks s))
         \<and> forceTargets (fst (onResults landmarks s)) = (0, 10)
         \<and> snd (forceTargets g') \<le> snd (forceTargets (fst (onResults landmarks s)))
         \<and> uRepelStrength (partU (animate p (fst (onResults landmarks s)) delta st))
             = damp 5.0 (10 * attractionSensitivity p) 8.0 (min delta 0.1)"
proof -
  let ?g = "fst (onResults landmarks s)"
  have smash: "isTwoHandSmash ?g" and count: "0 < handsCount ?g"
    using assms(1-4) by (simp_all add: onResults_def Let_def)
  have tgt: "forceTargets ?g = (0, 10)"
    using smash by (simp add: forceTargets_def)
  have "uRepelStrength (partU (animate p ?g delta st))
          = damp 5.0 (10 * attractionSensitivity p) 8.0 (min delta 0.1)"
    using smash count assms(5,6) tgt
    by (simp add: animate_def gestureStateMachine_def manualUpdates_def Let_def)
  with smash tgt force_targets_repel_le [of g'] show ?thesis by simp
qed

theorem two_hand_smash_strongest_repel_witness:
  "isTwoHandSmash (fst (onResults [fistAt 0.5, fistAt 0.55] (initGestures, initPhysics)))
   \<and> forceTargets (fst (onResults [fistAt 0.5, fistAt 0.55] (initGestures, initPhysics))) = (0, 10)
   \<and> dist_xy (fistAt 0.5 0) (fistAt 0.55 0) = 0.05
   \<and> uRepelStrength (partU (animate interactiveProps
         (fst (onResults [fistAt 0.5, fistAt 0.55] (initGestures, initPhysics))) (1 / 60) initState))
       = damp 5.0 10 8.0 (1 / 60)"
proof -
  have d: "dist_xy (fistAt 0.5 0) (fistAt 0.55 0) = 0.05"
    by (simp add: fistAt_def dist_xy_def)
  have a: "avgTipDist (fistAt x) < 0.25" for x
    by (simp add: fistAt_def avgTipDist_def dist_xy_def)
  have p: "interactiveMode interactiveProps" "activeAnimation interactiveProps = NONE"
    "attractionSensitivity interactiveProps = 1"
    by (simp_all add: interactiveProps_def)
  have "dist_xy (fistAt 0.5 0) (fistAt 0.55 0) < 0.15"
    unfolding d by simp
  from two_hand_smash_strongest_repel
         [OF refl a a this p(1,2), of "(initGestures, initPhysics)" initGestures "1 / 60" initState]
  show ?thesis
    using d by (simp add: p)
qed

subsection \<open>Cooldown gating\<close>

lemma heldFrames_add:
  "heldFrames gate dt (m + n) cd =
     (fst (heldFrames gate dt m cd) + fst (heldFrames gate dt n (snd (heldFrames gate dt m cd))),
      snd (heldFrames gate dt n (snd (heldFrames gate dt m cd))))"
  by (induction m arbitrary: cd) (simp_all add: Let_def)

text \<open>At 60 frames per second a timer at \<open>j/60\<close> seconds counts down one sixtieth a frame.\<close>

lemma gate_counting_down:
  assumes "0 < j"
  shows "cooldownGate D True (1 / 60) (real j / 60) = (False, real (j - 1) / 60)"
  using assms by (simp add: cooldownGate_def Let_def field_simps)

lemma gate_firing:
  assumes "0 < N"
  shows "cooldownGate (real N / 60) True (1 / 60) 0 = (True, real (N - 1) / 60)"
  using assms by (simp add: cooldownGate_def Let_def field_simps)

lemma heldFrames_counting_down:
  "k \<le> j \<Longrightarrow> heldFrames (cooldownGate D) (1 / 60) k (real j / 60) = (0, real (j - k) / 60)"
proof (induction k arbitrary: j)
  case 0
  show ?case by simp
next
  case (Suc k)
  then have j: "0 < j" and k: "k \<le> j - 1" by simp_all
  show ?case
    using Suc.IH [OF k] by (simp add: gate_counting_down [OF j] Let_def)
qed

lemma heldFrames_fire_then_count:
  assumes "k < N"
  shows "heldFrames (cooldownGate (real N / 60)) (1 / 60) (Suc k) 0 = (1, real (N - Suc k) / 60)"
proof -
  from assms have N: "0 < N" and k: "k \<le> N - 1" by simp_all
  have "heldFrames (cooldownGate (real N / 60)) (1 / 60) (Suc k) (real 0 / 60)
          = (1, real (N - Suc k) / 60)"
    using heldFrames_counting_down [OF k, of "real N / 60"]
    by (simp add: gate_firing [OF N] Let_def)
  then show ?thesis by simp
qed

text \<open>A gate of \<open>N/60\<close> seconds with the trigger held fires once every \<open>N\<close> frames.\<close>

lemma heldFrames_periods:
  assumes "0 < N"
  shows "heldFrames (cooldownGate (real N / 60)) (1 / 60) (N * m) 0 = (m, 0)"
proof (induction m)
  case 0
  show ?case by simp
next
  case (Suc m)
  from assms have "N - 1 < N" and N: "Suc (N - 1) = N" by simp_all
  then have p: "heldFrames (cooldownGate (real N / 60)) (1 / 60) N 0 = (1, 0)"
    using heldFrames_fire_then_count [of "N - 1" N] by simp
  have "N * Suc m = N + N * m" by simp
  then show ?case
    by (simp add: heldFrames_add p Suc.IH)
qed

lemma heldFrames_count:
  assumes "r < N"
  shows "fst (heldFrames (cooldownGate (real N / 60)) (1 / 60) (N * m + Suc r) 0) = m + 1"
proof -
  from assms have N: "0 < N" by simp
  show ?thesis
    by (simp only: heldFrames_add heldFrames_periods [OF N] heldFrames_fire_then_count [OF assms]
          fst_conv snd_conv)
qed

lemma clapGate_eq: "clapGate = cooldownGate (real 60 / 60)"
  by (intro ext) (simp add: clapGate_def)

lemma clapGate_cmp_eq: "clapGate_cmp = cooldownGate (real 48 / 60)"
  by (intro ext) (simp add: clapGate_cmp_def)

text \<open>
  In a frame of the render loop with a hand counted in interactive mode, the clap timer
  and the interaction mode move as \<open>clapGate\<close> says.
\<close>

lemma animate_clap_gate:
  assumes "interactiveMode p" and "0 < handsCount g"
  shows "clapCooldown (phys (animate p g delta st))
           = snd (clapGate (isClapping g) (min delta 0.1) (clapCooldown (phys st)))"
    and "interactionMode (animate p g delta st) \<noteq> interactionMode st
           \<longleftrightarrow> fst (clapGate (isClapping g) (min delta 0.1) (clapCooldown (phys st)))"
  using assms
  by (auto simp add: animate_def gestureStateMachine_def manualUpdates_def animationPresets_def
        Let_def)

lemma animateFrames_count:
  assumes "interactiveMode p" and "0 < handsCount g" and "isClapping g"
  shows "fst (animateFrames p g delta n st)
           = fst (heldFrames clapGate (min delta 0.1) n (clapCooldown (phys st)))"
proof (induction n arbitrary: st)
  case 0
  show ?case by simp
next
  case (Suc n)
  show ?case
    using assms(3) animate_clap_gate [OF assms(1,2), of delta st] Suc.IH [of "animate p g delta st"]
    by (simp add: Let_def)
qed

text \<open>
  C5. With the clap boolean held true across 1000 frames at \<open>dt = 1/60\<close> s, starting from
  an expired timer, the clap action fires \<open>floor (total_time / cooldown_duration) + 1\<close>
  times: 17 times with the cooldown of 1 s of part_001, 21 times with the 0.8 s of
  components/FractalVis.tsx, not once per frame. For part_001 this is also the number of
  frames in which 1000 calls of \<open>animate\<close> toggle the interaction mode, from the initial
  state with two clapping hands in view.
\<close>

theorem clap_held_1000_frames:
  "fst (heldFrames clapGate (1 / 60) 1000 0) = nat \<lfloor>(1000 * (1 / 60)) / (1.0::real)\<rfloor> + 1
   \<and> fst (heldFrames clapGate (1 / 60) 1000 0) = 17
   \<and> fst (heldFrames clapGate_cmp (1 / 60) 1000 0) = nat \<lfloor>(1000 * (1 / 60)) / (0.8::real)\<rfloor> + 1
   \<and> fst (heldFrames clapGate_cmp (1 / 60) 1000 0) = 21
   \<and> fst (animateFrames interactiveProps (firstCallback twoFists) (1 / 60) 1000 initState) = 17"
proof -
  have p: "interactiveMode interactiveProps" by (simp add: interactiveProps_def)
  have i: "clapCooldown (phys initState) = 0" by (simp add: initState_def initPhysics_def)
  have a: "fst (heldFrames clapGate (1 / 60) 1000 0) = 17"
    using heldFrames_count [of 39 60 16] by (simp add: clapGate_eq)
  have b: "fst (heldFrames clapGate_cmp (1 / 60) 1000 0) = 21"
    using heldFrames_count [of 39 48 20] by (simp add: clapGate_cmp_eq)
  have c: "\<lfloor>(1000 * (1 / 60)) / (1.0::real)\<rfloor> = 16"
    by (simp add: floor_eq_iff)
  have d: "\<lfloor>(1000 * (1 / 60)) / (0.8::real)\<rfloor> = 20"
    by (simp add: floor_eq_iff)
  have e: "fst (animateFrames interactiveProps (firstCallback twoFists) (1 / 60) 1000 initState) = 17"
    using animateFrames_count [OF p _ two_fists_gestures(1), of "1 / 60" 1000 initState]
    by (simp add: two_fists_gestures i a)
  show ?thesis
    by (simp add: a b c d e)
qed

subsection \<open>The escape-time branch\<close>

text \<open>
  The loop started at iteration \<open>i\<close> on the \<open>i\<close>-th iterate stops at the first iterate
  that escapes, if that happens before the hard cap of 100 and the configured limit.
\<close>

lemma iterLoop_escape:
  assumes "k < 100" and "real k < loopLimit"
    and "\<forall>j<k. dot2 (orbit m c z0 (Suc j)) (orbit m c z0 (Suc j)) \<le> 4"
    and "4 < dot2 (orbit m c z0 (Suc k)) (orbit m c z0 (Suc k))"
    and "i \<le> k"
  shows "iterLoop m loopLimit c i (orbit m c z0 i) = (orbit m c z0 (Suc k), k)"
  using assms(5)
proof (induction "k - i" arbitrary: i)
  case 0
  then have "i = k" by simp
  with assms(1,2,4) show ?case
    by (subst iterLoop.simps) simp
next
  case (Suc d)
  then have lt: "i < k" and d: "d = k - Suc i" and le: "Suc i \<le> k" by simp_all
  from lt assms(1,2) have i: "i < 100" "\<not> loopLimit \<le> real i" by simp_all
  from lt assms(3) have ne: "\<not> 4 < dot2 (orbit m c z0 (Suc i)) (orbit m c z0 (Suc i))"
    by (simp add: not_less)
  have "iterLoop m loopLimit c i (orbit m c z0 i)
          = iterLoop m loopLimit c (Suc i) (orbit m c z0 (Suc i))"
    using i ne by (subst iterLoop.simps) simp
  with Suc.hyps(1) [OF d le] show ?case by simp
qed

lemma log2_log2_defined:
  assumes "4 < x"
  shows "glsl_log2 x = Some (log 2 x)" and "glsl_log2 (log 2 x) = Some (log 2 (log 2 x))"
proof -
  from assms have x: "0 < x" "1 < x" by simp_all
  then have "0 < log 2 x" by simp
  with x show "glsl_log2 x = Some (log 2 x)" and "glsl_log2 (log 2 x) = Some (log 2 (log 2 x))"
    by (simp_all add: glsl_log2_def)
qed

text \<open>
  C8, as amended. For a point whose orbit escapes inside the loop (the iterate number
  \<open>k + 1\<close> is the first with \<open>|z|\<^sup>2 > 4\<close>, with \<open>k\<close> below the configured cap and below the
  loop's hard cap of 100), the pseudo-depth returned by the 2-D branch is
  \<open>(k - log2 (log2 |z|\<^sup>2) + 4) / cap\<close>, where \<open>k\<close> is the escape count and \<open>z\<close> that iterate.
  With a cap configured above 100, a point whose escape count is 100 or more is cut off at
  iterate 100 and is outside this statement.
\<close>

theorem pseudo_depth_is_smoothed_count:
  assumes "0 < cap" and "k < 100" and "real k < cap"
    and "\<forall>j<k. dot2 (orbit m (paramC jc pos m) (startZ pos m) (Suc j))
                    (orbit m (paramC jc pos m) (startZ pos m) (Suc j)) \<le> 4"
    and "4 < dot2 (orbit m (paramC jc pos m) (startZ pos m) (Suc k))
                  (orbit m (paramC jc pos m) (startZ pos m) (Suc k))"
    and "z = orbit m (paramC jc pos m) (startZ pos m) (Suc k)"
  shows "IterateFractal jc cap pos m
           = Some (fst z, snd z, (real k - log 2 (log 2 (dot2 z z)) + 4) / cap)"
proof -
  have loop: "iterLoop m cap (paramC jc pos m) 0 (startZ pos m) = (z, k)"
    using iterLoop_escape [OF assms(2,3,4,5), of 0] assms(6) by simp
  from assms(5,6) have esc: "4 < dot2 z z" by simp
  show ?thesis
    using assms(1) loop log2_log2_defined [OF esc]
    by (simp add: IterateFractal_def Let_def startZ_def paramC_def)
qed

theorem pseudo_depth_is_smoothed_count_witness:
  "IterateFractal (0, 0) 10 (3 / 2, 0) 2
     = Some (15 / 4, 0, (1 - log 2 (log 2 (225 / 16)) + 4) / 10)"
proof -
  have o1: "orbit 2 (paramC (0, 0) (3 / 2, 0) 2) (startZ (3 / 2, 0) 2) (Suc 0) = (3 / 2, 0)"
    by (simp add: paramC_def startZ_def fstep_def csqr_def)
  have o2: "orbit 2 (paramC (0, 0) (3 / 2, 0) 2) (startZ (3 / 2, 0) 2) (Suc (Suc 0)) = (15 / 4, 0)"
    using o1 by (simp add: paramC_def fstep_def csqr_def)
  have h4: "\<forall>j<Suc 0. dot2 (orbit 2 (paramC (0, 0) (3 / 2, 0) 2) (startZ (3 / 2, 0) 2) (Suc j))
                    (orbit 2 (paramC (0, 0) (3 / 2, 0) 2) (startZ (3 / 2, 0) 2) (Suc j)) \<le> 4"
    using o1 by (simp add: dot2_def)
  have h5: "4 < dot2 (orbit 2 (paramC (0, 0) (3 / 2, 0) 2) (startZ (3 / 2, 0) 2) (Suc (Suc 0)))
                  (orbit 2 (paramC (0, 0) (3 / 2, 0) 2) (startZ (3 / 2, 0) 2) (Suc (Suc 0)))"
    using o2 by (simp add: dot2_def)
  from pseudo_depth_is_smoothed_count [of 10 "Suc 0" 2 "(0, 0)" "(3 / 2, 0)" "(15 / 4, 0)", OF _ _ _ h4 h5]
  show ?thesis
    using o2 by (simp add: dot2_def)
qed

subsection \<open>Orbits that never escape\<close>

lemma dot2_cmod: "dot2 z z = (cmod (Complex (fst z) (snd z)))\<^sup>2"
  by (simp add: dot2_def cmod_power2) (simp add: power2_eq_square)

lemma fstep_square_plus_c:
  assumes "m < 2.5"
  shows "Complex (fst (fstep m z c)) (snd (fstep m z c))
           = Complex (fst z) (snd z) * Complex (fst z) (snd z) + Complex (fst c) (snd c)"
  using assms by (simp add: fstep_def csqr_def complex_eq_iff)

text \<open>Below mode 2.5 an iterate within 1/2 of the origin stays there when \<open>|c| \<le> 1/4\<close>.\<close>

lemma fstep_stays_small:
  assumes "m < 2.5" and "dot2 z z \<le> 1 / 4" and "dot2 c c \<le> 1 / 16"
  shows "dot2 (fstep m z c) (fstep m z c) \<le> 1 / 4"
proof -
  let ?Z = "Complex (fst z) (snd z)" and ?C = "Complex (fst c) (snd c)"
  from assms(2) have "(cmod ?Z)\<^sup>2 \<le> (1 / 2)\<^sup>2"
    by (simp add: dot2_cmod power2_eq_square)
  then have z: "cmod ?Z \<le> 1 / 2"
    by (rule power2_le_imp_le) simp
  from assms(3) have "(cmod ?C)\<^sup>2 \<le> (1 / 4)\<^sup>2"
    by (simp add: dot2_cmod power2_eq_square)
  then have c: "cmod ?C \<le> 1 / 4"
    by (rule power2_le_imp_le) simp
  have "cmod ?Z * cmod ?Z \<le> (1 / 2) * (1 / 2)"
    by (intro mult_mono z) simp_all
  then have "cmod (?Z * ?Z + ?C) \<le> 1 / 2"
    using norm_triangle_ineq [of "?Z * ?Z" ?C] c by (simp add: norm_mult)
  then have "(cmod (?Z * ?Z + ?C))\<^sup>2 \<le> (1 / 2)\<^sup>2"
    by (intro power_mono) simp_all
  then show ?thesis
    by (simp add: dot2_cmod fstep_square_plus_c [OF assms(1)] power2_eq_square)
qed

lemma iterLoop_stays_small:
  "m < 2.5 \<Longrightarrow> dot2 c c \<le> 1 / 16 \<Longrightarrow> dot2 z z \<le> 1 / 4 \<Longrightarrow>
     dot2 (fst (iterLoop m loopLimit c i z)) (fst (iterLoop m loopLimit c i z)) \<le> 1 / 4"
proof (induction m loopLimit c i z rule: iterLoop.induct)
  case (1 md loopLimit c i z)
  show ?case
  proof (cases "i < 100 \<and> \<not> loopLimit \<le> real i")
    case False
    then have "iterLoop md loopLimit c i z = (z, i)"
      by (subst iterLoop.simps) auto
    with "1.prems"(3) show ?thesis by simp
  next
    case True
    have small: "dot2 (fstep md z c) (fstep md z c) \<le> 1 / 4"
      using "1.prems" by (intro fstep_stays_small)
    then have ne: "\<not> 4 < dot2 (fstep md z c) (fstep md z c)" by simp
    have "iterLoop md loopLimit c i z = iterLoop md loopLimit c (Suc i) (fstep md z c)"
      using True ne by (subst iterLoop.simps) simp
    with "1.IH" True ne "1.prems"(1,2) small show ?thesis by simp
  qed
qed


text \<open>The second logarithm of the smoothed count is undefined when \<open>|z|\<^sup>2\<close> is below 1.\<close>

lemma second_log2_undefined:
  assumes "x < 1" and "glsl_log2 x = Some l"
  shows "glsl_log2 l = None"
proof -
  from assms(2) have x: "0 < x" and l: "l = log 2 x"
    by (simp_all add: glsl_log2_def split: if_splits)
  from x assms(1) have "log 2 x < 0" by simp
  with l show ?thesis by (simp add: glsl_log2_def)
qed

lemma IterateFractal_undefined_below_one:
  assumes "0.1 \<le> \<bar>m - 1\<bar>"
    and "dot2 (fst (iterLoop m (if 0 < cap then cap else 20) pos 0 (0, 0)))
              (fst (iterLoop m (if 0 < cap then cap else 20) pos 0 (0, 0))) < 1"
  shows "IterateFractal jc cap pos m = None"
proof -
  define r where "r = iterLoop m (if 0 < cap then cap else 20) pos 0 (0, 0)"
  have unfolded: "IterateFractal jc cap pos m
          = (case glsl_log2 (dot2 (fst r) (fst r)) of
               None \<Rightarrow> None
             | Some l \<Rightarrow>
                 (case glsl_log2 l of
                    None \<Rightarrow> None
                  | Some ll \<Rightarrow> Some (fst (fst r), snd (fst r),
                                     (real (snd r) - ll + 4) / (if 0 < cap then cap else 20))))"
    using assms(1) by (simp add: IterateFractal_def Let_def r_def cong: option.case_cong)
  from assms(2) have "dot2 (fst r) (fst r) < 1" by (simp add: r_def)
  from second_log2_undefined [OF this] show ?thesis
    unfolding unfolded by (simp split: option.splits)
qed

text \<open>Direct evaluation of the loop at the origin, cap 10, Mandelbrot mode.\<close>

lemma iterLoop_at_origin: "iterLoop 2 10 (0, 0) 0 (0, 0) = ((0, 0), 10)"
  by (simp add: iterLoop.simps fstep_def csqr_def dot2_def)

lemma IterateFractal_at_origin: "IterateFractal jc 10 (0, 0) 2 = None"
  by (simp add: IterateFractal_def Let_def iterLoop_at_origin glsl_log2_def dot2_def)

text \<open>
  C1 (the code falls short of it). In the Mandelbrot range of the mode scalar
  (\<open>1.1 \<le> mode < 2.5\<close>), for every point \<open>pos\<close> with \<open>|pos| \<le> 1/4\<close> the orbit never leaves
  the disc of radius 1/2, so the loop ends at its cap with \<open>|z|\<^sup>2 < 1\<close> and the smoothed
  count \<open>iter - log2 (log2 |z|\<^sup>2) + 4\<close> is undefined, for every iteration cap: the kernel
  has no finite pseudo-depth, position or colour there. With zoom 1 and pan 0 these are
  the seeds with \<open>x\<^sup>2 + y\<^sup>2 \<le> 1/64\<close> (stated for the visual mode that \<open>main_visual\<close>
  models).
\<close>

theorem kernel_undefined_near_origin:
  assumes "1.1 \<le> m" and "m < 2.5" and "dot2 pos pos \<le> 1 / 16"
    and "(vec_x seed)\<^sup>2 + (vec_y seed)\<^sup>2 \<le> 1 / 64" and "0.5 < vm"
  shows "IterateFractal jc cap pos m = None
         \<and> main_visual t vm m 1 (0, 0) jc cap cm p3 rx seed = None"
proof -
  from assms(1) have nj: "0.1 \<le> \<bar>m - 1\<bar>" by simp
  have iter: "IterateFractal jc cap q m = None" if q: "dot2 q q \<le> 1 / 16" for q
  proof -
    let ?z = "fst (iterLoop m (if 0 < cap then cap else 20) q 0 (0, 0))"
    have "dot2 ?z ?z \<le> 1 / 4"
      using assms(2) q by (intro iterLoop_stays_small) (simp_all add: dot2_def)
    then have "dot2 ?z ?z < 1" by simp
    with nj show ?thesis by (rule IterateFractal_undefined_below_one)
  qed
  let ?nav = "(vec_x seed * 2 / 1 + 0, vec_y seed * 2 / 1 + 0)"
  have "dot2 ?nav ?nav = 4 * ((vec_x seed)\<^sup>2 + (vec_y seed)\<^sup>2)"
    by (simp add: dot2_def power2_eq_square)
  with assms(4) have "dot2 ?nav ?nav \<le> 1 / 16" by simp
  from iter [OF this] iter [OF assms(3)] assms(1,2) show ?thesis
    by (simp add: main_visual_def calc2D_def Let_def)
qed

theorem kernel_undefined_near_origin_witness:
  "IterateFractal (0.355, 0.355) 20 (0.2, 0.1) 2 = None
   \<and> main_visual 0 1 2 1 (0, 0) (0.355, 0.355) 20 0 (0, 0, 0) 0.5 (0.1, 0.05, 2) = None"
  using kernel_undefined_near_origin
          [of 2 "(0.2, 0.1)" "(0.1, 0.05, 2)" 1 "(0.355, 0.355)" 20 0 0 "(0, 0, 0)" "0.5"]
  by (simp add: dot2_def power2_eq_square)

subsection \<open>Escapes beyond the loop's hard cap\<close>

text \<open>
  While no iterate up to number \<open>n\<close> escapes, and \<open>n\<close> is within the hard cap and the
  configured limit, the loop started on the \<open>i\<close>-th iterate reaches the \<open>n\<close>-th.
\<close>

lemma iterLoop_advance:
  assumes "n \<le> 100" and "real n \<le> loopLimit"
    and "\<forall>j<n. dot2 (orbit m c z0 (Suc j)) (orbit m c z0 (Suc j)) \<le> 4"
    and "i \<le> n"
  shows "iterLoop m loopLimit c i (orbit m c z0 i) = iterLoop m loopLimit c n (orbit m c z0 n)"
  using assms(4)
proof (induction "n - i" arbitrary: i)
  case 0
  then show ?case by simp
next
  case (Suc d)
  then have lt: "i < n" and d: "d = n - Suc i" and le: "Suc i \<le> n" by simp_all
  from lt assms(1,2) have i: "i < 100" "\<not> loopLimit \<le> real i" by simp_all
  from lt assms(3) have ne: "\<not> 4 < dot2 (orbit m c z0 (Suc i)) (orbit m c z0 (Suc i))"
    by (simp add: not_less)
  have "iterLoop m loopLimit c i (orbit m c z0 i)
          = iterLoop m loopLimit c (Suc i) (orbit m c z0 (Suc i))"
    using i ne by (subst iterLoop.simps) simp
  with Suc.hyps(1) [OF d le] show ?case by simp
qed

text \<open>The loop stops at iterate 100 whatever the configured limit is.\<close>

lemma iterLoop_hard_cap:
  assumes "100 \<le> loopLimit"
    and "\<forall>j<100. dot2 (orbit m c z0 (Suc j)) (orbit m c z0 (Suc j)) \<le> 4"
  shows "iterLoop m loopLimit c 0 (orbit m c z0 0) = (orbit m c z0 100, 100)"
proof -
  have "iterLoop m loopLimit c 0 (orbit m c z0 0) = iterLoop m loopLimit c 100 (orbit m c z0 100)"
    using assms by (intro iterLoop_advance) simp_all
  also have "\<dots> = (orbit m c z0 100, 100)"
    by (subst iterLoop.simps) simp
  finally show ?thesis .
qed

text \<open>The orbit of \<open>slowPoint\<close> in Mandelbrot mode stays on the real axis and increases.\<close>

lemma slow_orbit_step:
  "snd (orbit 2 slowPoint (0, 0) n) = 0"
  "fst (orbit 2 slowPoint (0, 0) (Suc n)) = (fst (orbit 2 slowPoint (0, 0) n))\<^sup>2 + 2508 / 10000"
proof -
  show s: "snd (orbit 2 slowPoint (0, 0) n) = 0" for n
    by (induction n) (simp_all add: fstep_def csqr_def slowPoint_def)
  show "fst (orbit 2 slowPoint (0, 0) (Suc n)) = (fst (orbit 2 slowPoint (0, 0) n))\<^sup>2 + 2508 / 10000"
    using s [of n] by (simp add: fstep_def csqr_def slowPoint_def power2_eq_square)
qed

lemma slow_orbit_bounds:
  "0 \<le> orbitLower n
   \<and> real_of_int (orbitLower n) / 1000000000 \<le> fst (orbit 2 slowPoint (0, 0) n)
   \<and> fst (orbit 2 slowPoint (0, 0) n) \<le> real_of_int (orbitUpper n) / 1000000000"
proof (induction n)
  case 0
  show ?case by simp
next
  case (Suc n)
  let ?x = "fst (orbit 2 slowPoint (0, 0) n)"
  let ?L = "orbitLower n" and ?U = "orbitUpper n"
  from Suc have L0: "0 \<le> ?L" and lo: "real_of_int ?L / 1000000000 \<le> ?x"
    and hi: "?x \<le> real_of_int ?U / 1000000000" by simp_all
  from L0 lo have x0: "0 \<le> ?x" by (smt (verit) divide_nonneg_nonneg of_int_0_le_iff)
  have "(real_of_int ?L / 1000000000)\<^sup>2 \<le> ?x\<^sup>2"
    using L0 lo by (intro power_mono) simp_all
  moreover have "real_of_int (?L\<^sup>2 div 1000000000) \<le> real_of_int (?L\<^sup>2) / 1000000000"
    using real_of_int_div4 [of "?L\<^sup>2" 1000000000] by simp
  ultimately have lo': "real_of_int (?L\<^sup>2 div 1000000000) / 1000000000 \<le> ?x\<^sup>2"
    by (simp add: power2_eq_square field_simps)
  have "?x\<^sup>2 \<le> (real_of_int ?U / 1000000000)\<^sup>2"
    using x0 hi by (intro power_mono) simp_all
  moreover have "real_of_int (?U\<^sup>2) / 1000000000 \<le> real_of_int (?U\<^sup>2 div 1000000000) + 1"
    using real_of_int_div3 [of "?U\<^sup>2" 1000000000] by simp
  ultimately have hi': "?x\<^sup>2 \<le> real_of_int (?U\<^sup>2 div 1000000000 + 1) / 1000000000"
    by (simp add: power2_eq_square field_simps)
  have step: "fst (orbit 2 slowPoint (0, 0) (Suc n)) = ?x\<^sup>2 + 2508 / 10000"
    by (rule slow_orbit_step(2))
  have A: "real_of_int (orbitLower (Suc n)) / 1000000000
             = real_of_int (?L\<^sup>2 div 1000000000) / 1000000000 + 2508 / 10000"
    by (simp add: add_divide_distrib)
  have B: "real_of_int (orbitUpper (Suc n)) / 1000000000
             = real_of_int (?U\<^sup>2 div 1000000000 + 1) / 1000000000 + 2508 / 10000"
    by (simp add: add_divide_distrib)
  have "0 \<le> ?L\<^sup>2 div 1000000000" by (simp add: pos_imp_zdiv_nonneg_iff)
  then have C: "0 \<le> orbitLower (Suc n)" by simp
  from lo' hi' C show ?case
    unfolding step A B by linarith
qed

lemma slow_orbit_increasing:
  "fst (orbit 2 slowPoint (0, 0) n) \<le> fst (orbit 2 slowPoint (0, 0) (n + d))"
proof (induction d)
  case 0
  show ?case by simp
next
  case (Suc d)
  let ?y = "fst (orbit 2 slowPoint (0, 0) (n + d))"
  have "0 \<le> (?y - 1 / 2)\<^sup>2" by simp
  then have "?y \<le> ?y\<^sup>2 + 2508 / 10000"
    by (simp add: power2_eq_square algebra_simps)
  with Suc show ?case by (simp add: slow_orbit_step del: orbit.simps)
qed

lemma bound_values:
  "orbitUpper 100 < 1000000000" "orbitUpper 108 \<le> 2000000000" "2000000000 < orbitLower 109"
  by code_simp+

text \<open>
  The orbit of \<open>slowPoint\<close> first exceeds \<open>|z|\<^sup>2 > 4\<close> at iterate 109 (escape count 108),
  and its iterate 100 has \<open>|z|\<^sup>2 < 1\<close>.
\<close>

lemma slow_orbit_escape:
  "\<forall>j<108. dot2 (orbit 2 slowPoint (0, 0) (Suc j)) (orbit 2 slowPoint (0, 0) (Suc j)) \<le> 4"
  "4 < dot2 (orbit 2 slowPoint (0, 0) (Suc 108)) (orbit 2 slowPoint (0, 0) (Suc 108))"
  "dot2 (orbit 2 slowPoint (0, 0) 100) (orbit 2 slowPoint (0, 0) 100) < 1"
proof -
  have nonneg: "0 \<le> fst (orbit 2 slowPoint (0, 0) n)" for n
    using slow_orbit_bounds [of n] by (smt (verit) divide_nonneg_nonneg of_int_0_le_iff)
  have sq: "dot2 (orbit 2 slowPoint (0, 0) n) (orbit 2 slowPoint (0, 0) n)
              = (fst (orbit 2 slowPoint (0, 0) n))\<^sup>2" for n
    by (simp add: dot2_def slow_orbit_step power2_eq_square)
  have "real_of_int (orbitUpper 108) \<le> 2000000000"
    using bound_values(2) by linarith
  then have x108: "fst (orbit 2 slowPoint (0, 0) 108) \<le> 2"
    using slow_orbit_bounds [of 108] by (simp add: field_simps)
  have "real_of_int (orbitUpper 100) < 1000000000"
    using bound_values(1) by linarith
  then have x100: "fst (orbit 2 slowPoint (0, 0) 100) < 1"
    using slow_orbit_bounds [of 100] by (simp add: field_simps)
  have "2000000000 < real_of_int (orbitLower 109)"
    using bound_values(3) by linarith
  then have x109: "2 < fst (orbit 2 slowPoint (0, 0) 109)"
    using slow_orbit_bounds [of 109] by (simp add: field_simps)
  show "\<forall>j<108. dot2 (orbit 2 slowPoint (0, 0) (Suc j)) (orbit 2 slowPoint (0, 0) (Suc j)) \<le> 4"
  proof (intro allI impI)
    fix j :: nat
    assume "j < 108"
    then have "Suc j + (108 - Suc j) = 108" by simp
    with slow_orbit_increasing [of "Suc j" "108 - Suc j"] x108
    have "fst (orbit 2 slowPoint (0, 0) (Suc j)) \<le> 2" by simp
    with nonneg [of "Suc j"] have "(fst (orbit 2 slowPoint (0, 0) (Suc j)))\<^sup>2 \<le> 2\<^sup>2"
      by (intro power_mono)
    then show "dot2 (orbit 2 slowPoint (0, 0) (Suc j)) (orbit 2 slowPoint (0, 0) (Suc j)) \<le> 4"
      by (simp add: sq del: orbit.simps)
  qed
  have "2\<^sup>2 < (fst (orbit 2 slowPoint (0, 0) 109))\<^sup>2"
    using x109 by (intro power_strict_mono) simp_all
  then show "4 < dot2 (orbit 2 slowPoint (0, 0) (Suc 108)) (orbit 2 slowPoint (0, 0) (Suc 108))"
    by (simp add: sq del: orbit.simps)
  have "(fst (orbit 2 slowPoint (0, 0) 100))\<^sup>2 < 1\<^sup>2"
    using x100 nonneg [of 100] by (intro power_strict_mono) simp_all
  then show "dot2 (orbit 2 slowPoint (0, 0) 100) (orbit 2 slowPoint (0, 0) 100) < 1"
    by (simp add: sq)
qed

text \<open>With the cap configured to 128 the kernel stops at iterate 100 and has no smoothed count.\<close>

lemma slow_point_loop: "iterLoop 2 128 slowPoint 0 (0, 0) = (orbit 2 slowPoint (0, 0) 100, 100)"
  using iterLoop_hard_cap [of 128 2 slowPoint "(0, 0)"] slow_orbit_escape(1) by simp

lemma slow_point_undefined: "IterateFractal jc 128 slowPoint 2 = None"
  using slow_orbit_escape(3) by (intro IterateFractal_undefined_below_one) (simp_all add: slow_point_loop)

text \<open>
  The claim C8 as stated fails: \<open>slowPoint\<close> is an escaping point with escape count 108,
  below the configured cap 128, and the kernel's pseudo-depth is not the smoothed count of
  that escape (it is undefined).
\<close>

theorem pseudo_depth_beyond_hard_cap_counterexample:
  "\<not> ((\<forall>j<108. dot2 (orbit 2 (paramC (0, 0) slowPoint 2) (startZ slowPoint 2) (Suc j))
                    (orbit 2 (paramC (0, 0) slowPoint 2) (startZ slowPoint 2) (Suc j)) \<le> 4)
      \<and> 4 < dot2 (orbit 2 (paramC (0, 0) slowPoint 2) (startZ slowPoint 2) (Suc 108))
                  (orbit 2 (paramC (0, 0) slowPoint 2) (startZ slowPoint 2) (Suc 108))
      \<longrightarrow> IterateFractal (0, 0) 128 slowPoint 2
            = Some (fst (orbit 2 (paramC (0, 0) slowPoint 2) (startZ slowPoint 2) (Suc 108)),
                    snd (orbit 2 (paramC (0, 0) slowPoint 2) (startZ slowPoint 2) (Suc 108)),
                    (real 108
                     - log 2 (log 2 (dot2 (orbit 2 (paramC (0, 0) slowPoint 2) (startZ slowPoint 2) (Suc 108))
                                          (orbit 2 (paramC (0, 0) slowPoint 2) (startZ slowPoint 2) (Suc 108))))
                     + 4) / 128))
   \<and> IterateFractal (0, 0) 128 slowPoint 2 = None"
proof -
  have pc: "paramC (0, 0) slowPoint 2 = slowPoint" "startZ slowPoint 2 = (0, 0)"
    by (simp_all add: paramC_def startZ_def)
  show ?thesis
    unfolding pc using slow_orbit_escape(1,2) by (simp add: slow_point_undefined)
qed


subsection \<open>The palette\<close>

lemma convex_unit:
  fixes a b w :: real
  assumes "0 \<le> a" "a \<le> 1" "0 \<le> b" "b \<le> 1" "0 \<le> w" "w \<le> 1"
  shows "0 \<le> a * (1 - w) + b * w" and "a * (1 - w) + b * w \<le> 1"
proof -
  from assms show "0 \<le> a * (1 - w) + b * w" by simp
  have "a * (1 - w) \<le> 1 * (1 - w)" and "b * w \<le> 1 * w"
    using assms by (intro mult_right_mono; simp)+
  then show "a * (1 - w) + b * w \<le> 1" by simp
qed

lemma mix3_bounded:
  assumes "channel_bounded a" and "channel_bounded b" and "0 \<le> w" and "w \<le> 1"
  shows "channel_bounded (mix3 a b w)"
  using assms by (simp add: channel_bounded_def mix3_def convex_unit)

lemma pulse_bounds:
  fixes x :: real
  shows "0 \<le> 0.5 + 0.5 * sin x" and "0.5 + 0.5 * sin x \<le> 1"
proof -
  have "- 1 \<le> sin x" and "sin x \<le> 1" by simp_all
  then show "0 \<le> 0.5 + 0.5 * sin x" and "0.5 + 0.5 * sin x \<le> 1" by linarith+
qed

lemma weight_bounds:
  assumes "0 \<le> q" and "q \<le> 1" and "0 < e" and "0 \<le> k" and "k \<le> 1"
  shows "0 \<le> glsl_pow q e * k" and "glsl_pow q e * k \<le> 1"
proof -
  have "q powr e \<le> 1" using assms(1,2,3) by (intro powr_le1) simp_all
  moreover have "0 \<le> q powr e" by simp
  ultimately show "0 \<le> glsl_pow q e * k" and "glsl_pow q e * k \<le> 1"
    using assms(4,5) by (simp_all add: glsl_pow_def mult_le_one)
qed


lemma getPalette_bounded: "channel_bounded (getPalette tm vm t pid)"
proof -
  define q where "q = (if 0.5 < vm then 0.5 + 0.5 * sin (t * 3.0) else 0.5 + 0.5 * sin (t * 3.0 + tm * 0.1))"
  have q: "0 \<le> q" "q \<le> 1"
    using pulse_bounds [of "t * 3.0"] pulse_bounds [of "t * 3.0 + tm * 0.1"] by (simp_all add: q_def)
  have stops: "channel_bounded (mix3 a b q)" if "channel_bounded a" "channel_bounded b" for a b
    using that q by (rule mix3_bounded)
  have grad: "channel_bounded (mix3 (mix3 a b q) c (glsl_pow q e * k))"
    if "channel_bounded a" "channel_bounded b" "channel_bounded c" "0 < e" "0 \<le> k" "k \<le> 1"
    for a b c e k
    using that q by (intro mix3_bounded stops weight_bounds)
  have grad1: "channel_bounded (mix3 (mix3 a b q) c (glsl_pow q e))"
    if "channel_bounded a" "channel_bounded b" "channel_bounded c" "0 < e" for a b c e
    using grad [OF that, of 1] by simp
  have choice: "channel_bounded (if c then a else b)"
    if "channel_bounded a" "channel_bounded b" for a b c
    using that by simp
  show ?thesis
    unfolding getPalette_def Let_def q_def [symmetric]
    by (intro choice grad grad1) (simp_all add: channel_bounded_def)
qed

text \<open>
  C3, as amended. The palette's colour is a function of \<open>t\<close>, the palette id and the
  uniforms \<open>uTime\<close> and \<open>uVisualMode\<close> that the shader function reads: every channel lies
  in \<open>[0, 1]\<close> for all real arguments, and when \<open>uVisualMode > 0.5\<close> the colour does not
  depend on \<open>uTime\<close>, so that it is then determined by \<open>(t, id)\<close> alone.
\<close>

theorem palette_bounded_and_time_free_when_visual:
  "channel_bounded (getPalette tm vm t pid)
   \<and> (0.5 < vm \<longrightarrow> getPalette tm vm t pid = getPalette tm' vm t pid)"
  by (simp add: getPalette_bounded) (simp add: getPalette_def)

theorem palette_bounded_and_time_free_when_visual_witness:
  "channel_bounded (getPalette (5 * pi) 0 0 1)
   \<and> getPalette (5 * pi) 1 0 1 = getPalette 0 1 0 1"
  using palette_bounded_and_time_free_when_visual [of "5 * pi" 0 0 1]
    palette_bounded_and_time_free_when_visual [of "5 * pi" 1 0 1 0]
  by simp

text \<open>
  The claim C3 as stated fails: in interactive mode (\<open>uVisualMode \<le> 0.5\<close>) the same
  \<open>(t, id) = (0, 1)\<close> gives two colours at \<open>uTime = 0\<close> and \<open>uTime = 5 * pi\<close>.
\<close>

theorem palette_depends_on_time_counterexample:
  "getPalette 0 0 0 1 \<noteq> getPalette (5 * pi) 0 0 1"
proof -
  have a: "vec_x (getPalette 0 0 0 1) = 69 / 160"
    by (simp add: getPalette_def mix3_def glsl_pow_def Let_def power3_eq_cube)
  have "sin (5 * pi * 0.1) = 1"
    by simp
  then have b: "vec_x (getPalette (5 * pi) 0 0 1) = 1"
    by (simp add: getPalette_def mix3_def glsl_pow_def Let_def power3_eq_cube)
  from a b show ?thesis by auto
qed

subsection \<open>The zoom of the navigation state\<close>

text \<open>The wheel handler keeps a zoom inside its guard's range there.\<close>

lemma handleWheel_keeps_range:
  assumes "0.0001 < zoom n" and "zoom n < 100000"
  shows "0.0001 < zoom (handleWheel deltaY n)" and "zoom (handleWheel deltaY n) < 100000"
  using assms by (simp_all add: handleWheel_def Let_def)

text \<open>Once the zoom is zero or negative, the wheel handler rejects every update.\<close>

lemma handleWheel_stuck:
  assumes "zoom n \<le> 0"
  shows "handleWheel deltaY n = n"
proof -
  have "\<bar>sgn deltaY\<bar> \<le> 1" by (simp add: sgn_if)
  then have "0 \<le> 1 + - sgn deltaY * 0.15" by (simp add: sgn_if)
  with assms have "zoom n * (1 + - sgn deltaY * 0.15) \<le> 0"
    by (simp add: mult_nonpos_nonneg)
  then show ?thesis by (simp add: handleWheel_def Let_def)
qed

text \<open>Punch, fly-mode throttle and the presets keep a positive zoom positive.\<close>

lemma punchStep_positive:
  assumes "0 < zoom (nav st)" and "0 \<le> dt"
  shows "0 < zoom (nav (punchStep g dt st))"
  using assms by (simp add: add_pos_nonneg)

lemma fly_throttle_positive:
  assumes "0 < zoom n" and "0 \<le> dt"
  shows "0 < zoom (navigationLogic IMMERSIVE_FLY g dt ph n)"
  using assms by (simp add: navigationLogic_def Let_def add_pos_nonneg)

lemma presetTargets_positive:
  assumes "0 < zoom (nav st)"
  shows "0 < zoom (nav (presetTargets p st))"
  using assms by simp

text \<open>
  The pinch branch has no guard: an index tip that is lower than the last recorded hand
  position by 2/3 or more (in the mapped coordinates, a sixth of the image height) makes
  a positive zoom zero or negative.
\<close>

lemma pinch_zoom_nonpositive:
  assumes "isPinching g" and "\<not> isFist g" and "0 < zoom n"
    and "vec_y (indexTip g) - vec_y (lastHandPos ph) \<le> - 2 / 3"
  shows "zoom (navigationLogic OBJECT_ORBIT g dt ph n) \<le> 0"
proof -
  define d where "d = vec_y (indexTip g) - vec_y (lastHandPos ph)"
  from assms(4) have "d \<le> - 2 / 3" by (simp add: d_def)
  then have "1 + d * (3 / 2) \<le> 0" by simp
  with assms(3) have "zoom n * (1 + d * (3 / 2)) \<le> 0"
    by (intro mult_nonneg_nonpos) simp_all
  with assms(1,2) show ?thesis by (simp add: navigationLogic_def Let_def d_def)
qed

text \<open>
  C2 (the code falls short of it). The first interactive frame after the tracker
  reports a pinching hand whose index tip is three quarters down the image multiplies
  the zoom by \<open>1 + (-1 - 0) * 1.5 = -1/2\<close>: from the initial zoom 1 the navigation zoom
  becomes \<open>-1/2\<close>, which is not positive; the wheel handler then leaves it there.
\<close>

theorem pinch_zoom_goes_negative:
  "zoom (nav initState) = 1
   \<and> zoom (nav (animate interactiveProps (firstCallback [pinchLow]) (1 / 60) initState)) = - 1 / 2
   \<and> zoom (handleWheel (- 100)
        (nav (animate interactiveProps (firstCallback [pinchLow]) (1 / 60) initState))) = - 1 / 2"
proof -
  let ?g = "firstCallback [pinchLow]"
  have z: "zoom (nav (animate interactiveProps ?g (1 / 60) initState)) = - 1 / 2"
    by (simp add: animate_def gestureStateMachine_def manualUpdates_def Let_def
          pinchLow_gestures navigationLogic_def interactiveProps_def initState_def
          initPhysics_def)
  then have "zoom (nav (animate interactiveProps ?g (1 / 60) initState)) \<le> 0" by simp
  from handleWheel_stuck [OF this] z show ?thesis
    by (simp add: initState_def)
qed

subsection \<open>Presets and gestures\<close>

text \<open>
  C4 (the code falls short of it). With the preset \<open>JULIA_MORPH\<close> active in interactive
  mode, one frame of part_001 from the initial state publishes a different zoom when the
  tracker has seen a punching fist (1.05 instead of 1), and a different interaction mode
  and repel strength when it has seen two fists together (fly mode and 5 instead of orbit
  mode and 0), than when it has seen no hand.
\<close>

theorem preset_frame_depends_on_gestures:
  "uZoom (partU (animate presetProps initGestures (1 / 60) initState)) = 1
   \<and> uZoom (partU (animate presetProps (firstCallback [fistPushed]) (1 / 60) initState)) = 21 / 20
   \<and> interactionMode (animate presetProps initGestures (1 / 60) initState) = OBJECT_ORBIT
   \<and> interactionMode (animate presetProps (firstCallback twoFists) (1 / 60) initState) = IMMERSIVE_FLY
   \<and> uRepelStrength (partU (animate presetProps initGestures (1 / 60) initState)) = 0
   \<and> uRepelStrength (partU (animate presetProps (firstCallback twoFists) (1 / 60) initState)) = 5"
proof -
  have p: "interactiveMode presetProps" "activeAnimation presetProps = JULIA_MORPH"
    by (simp_all add: presetProps_def interactiveProps_def)
  have none: "handsCount initGestures = 0"
    by (simp add: initGestures_def)
  have init: "zoom (nav initState) = 1" "uRepelStrength (partU initState) = 0"
    "interactionMode initState = OBJECT_ORBIT" "clapCooldown (phys initState) = 0"
    "lastHandPos (phys initState) = (0, 0, 0)"
    by (simp_all add: initState_def initUniforms_def initPhysics_def)
  show ?thesis
    by (simp add: animate_def gestureStateMachine_def animationPresets_def Let_def p none init
          fistPushed_gestures two_fists_gestures navigationLogic_def clapGate_def cooldownGate_def)
qed

text \<open>
  The first revision of \<open>App\<close> never shows a preset together with interactive mode; in
  the second, switching gestures on and starting a preset gives the component both.
\<close>

lemma playAnimation_v1_leaves_interactive:
  "\<not> appInteractive (playAnimation_v1 preset s)"
  by (simp add: playAnimation_v1_def)

lemma preset_with_gestures_reachable:
  "playAnimation JULIA_MORPH (toggleInteractive \<lparr>appInteractive = False, appAnimation = NONE\<rparr>)
     = \<lparr>appInteractive = interactiveMode presetProps, appAnimation = activeAnimation presetProps\<rparr>"
  by (simp add: playAnimation_def toggleInteractive_def presetProps_def interactiveProps_def)

text \<open>
  In part_002 the preset test comes first and the gesture logic sits in its else
  branch: while a preset is active, the navigation state, every uniform and the closure's
  variables after a frame are the same for any two gesture states. (Only the camera's
  orbit still looks at the visibility and waving flags.)
\<close>

lemma cameraOrbit_pf_fields [simp]:
  "nav_pf (cameraOrbit_pf p g st) = nav_pf st"
  "u_pf (cameraOrbit_pf p g st) = u_pf st"
  "smoothedHandPos_pf (cameraOrbit_pf p g st) = smoothedHandPos_pf st"
  "smoothedRotation_pf (cameraOrbit_pf p g st) = smoothedRotation_pf st"
  "evolutionTime_pf (cameraOrbit_pf p g st) = evolutionTime_pf st"
  "targetMode_pf (cameraOrbit_pf p g st) = targetMode_pf st"
  "animPhase_pf (cameraOrbit_pf p g st) = animPhase_pf st"
  "currentJulia_pf (cameraOrbit_pf p g st) = currentJulia_pf st"
  by (simp_all add: cameraOrbit_pf_def)

lemma animate_pf_preset_ignores_gestures:
  assumes "activeAnimation p \<noteq> NONE"
  shows "nav_pf (animate_pf p g dt st) = nav_pf (animate_pf p g' dt st)"
    and "u_pf (animate_pf p g dt st) = u_pf (animate_pf p g' dt st)"
    and "evolutionTime_pf (animate_pf p g dt st) = evolutionTime_pf (animate_pf p g' dt st)"
    and "targetMode_pf (animate_pf p g dt st) = targetMode_pf (animate_pf p g' dt st)"
    and "animPhase_pf (animate_pf p g dt st) = animPhase_pf (animate_pf p g' dt st)"
    and "smoothedHandPos_pf (animate_pf p g dt st) = smoothedHandPos_pf (animate_pf p g' dt st)"
    and "smoothedRotation_pf (animate_pf p g dt st) = smoothedRotation_pf (animate_pf p g' dt st)"
  using assms by (simp_all add: animate_pf_def)


end
